theory Spec2Isabelle
  imports Complex_Main "HOL-Library.AList" "HOL-Library.Product_Lexorder" "HOL-Library.Multiset"
begin
section \<open>vector\_store.py: the historical path ranker\<close>

text \<open>
  One entry of the list \<^verbatim>\<open>retrieve_similar_swaps\<close> returns (the similarity index is an
  external collaborator; its answer is an argument of the model). Only the keys that
  \<^verbatim>\<open>get_optimal_swap_paths\<close> reads are kept. The type \<open>'r\<close> of rates is any linear
  order with a zero: Python compares the rates as floats.
\<close>

record 'r swap_info =
  sw_txHash :: string
  sw_dex :: string
  sw_path :: string
  sw_swapRate :: 'r

text \<open>The dictionary stored under one key of \<^verbatim>\<open>path_stats\<close>.\<close>

record 'r path_stat =
  ps_path :: string
  ps_dex :: string
  ps_count :: nat
  ps_rates :: "'r list"
  ps_txHashes :: "string list"
  ps_bestRate :: 'r
  ps_avgRate :: 'r

text \<open>\<^verbatim>\<open>key = f"{path} on {dex}"\<close>\<close>

definition stat_key :: "'r swap_info \<Rightarrow> string" where
  "stat_key swap = sw_path swap @ '' on '' @ sw_dex swap"

text \<open>The entry created for a key that is not yet in \<^verbatim>\<open>path_stats\<close>.\<close>

definition new_stat :: "'r::zero swap_info \<Rightarrow> 'r path_stat" where
  "new_stat swap =
     \<lparr>ps_path = sw_path swap, ps_dex = sw_dex swap, ps_count = 0, ps_rates = [],
      ps_txHashes = [], ps_bestRate = 0, ps_avgRate = 0\<rparr>"

text \<open>
  The updates of one loop iteration on the entry: the count, the rate (kept only when
  positive) with the best rate, and the transaction hash.
\<close>

definition bump_stat :: "'r::{linorder,zero} swap_info \<Rightarrow> 'r path_stat \<Rightarrow> 'r path_stat" where
  "bump_stat swap stats =
     (let stats1 = stats\<lparr>ps_count := ps_count stats + 1\<rparr>;
          rate = sw_swapRate swap;
          stats2 = (if rate > 0
                    then (let s = stats1\<lparr>ps_rates := ps_rates stats1 @ [rate]\<rparr>
                          in if rate > ps_bestRate s then s\<lparr>ps_bestRate := rate\<rparr> else s)
                    else stats1)
      in stats2\<lparr>ps_txHashes := ps_txHashes stats2 @ [sw_txHash swap]\<rparr>)"

text \<open>
  The body of the first loop. \<^verbatim>\<open>path_stats\<close> is a Python dictionary, which keeps its
  keys in insertion order: an association list where \<open>AList.update\<close> replaces the value
  of a key in place and appends a new key at the end.
\<close>

definition add_swap ::
  "(string \<times> 'r::{linorder,zero} path_stat) list \<Rightarrow> 'r swap_info \<Rightarrow> (string \<times> 'r path_stat) list" where
  "add_swap path_stats swap =
     (let key = stat_key swap;
          stats = (case map_of path_stats key of None \<Rightarrow> new_stat swap | Some s \<Rightarrow> s)
      in AList.update key (bump_stat swap stats) path_stats)"

text \<open>
  The second loop: \<^verbatim>\<open>stats["avgRate"] = sum(stats["rates"]) / len(stats["rates"])\<close> for
  every entry with a rate. Python evaluates the quotient in binary floating point, so
  the averaging function is the parameter \<open>mean\<close>.
\<close>

definition set_avg :: "('r list \<Rightarrow> 'r) \<Rightarrow> 'r path_stat \<Rightarrow> 'r path_stat" where
  "set_avg mean stats =
     (if ps_rates stats \<noteq> [] then stats\<lparr>ps_avgRate := mean (ps_rates stats)\<rparr> else stats)"

text \<open>The sort key \<^verbatim>\<open>lambda x: (x["avgRate"], x["count"])\<close>, a tuple compared lexicographically.\<close>

definition rank_key :: "'r path_stat \<Rightarrow> 'r \<times> nat" where
  "rank_key x = (ps_avgRate x, ps_count x)"

text \<open>
  \<^verbatim>\<open>sorted(xs, key=k, reverse=True)\<close>: Python reverses the list, sorts it with its stable
  sort and reverses the result, so that equal keys keep their original order.
\<close>

definition sorted_reverse :: "('a \<Rightarrow> 'k::linorder) \<Rightarrow> 'a list \<Rightarrow> 'a list" where
  "sorted_reverse k xs = rev (sort_key k (rev xs))"

definition aggregate_swaps :: "'r::{linorder,zero} swap_info list \<Rightarrow> (string \<times> 'r path_stat) list" where
  "aggregate_swaps direct_swaps = foldl add_swap [] direct_swaps"

definition get_optimal_swap_paths ::
  "('r list \<Rightarrow> 'r) \<Rightarrow> 'r::{linorder,zero} swap_info list \<Rightarrow> 'r path_stat list" where
  "get_optimal_swap_paths mean direct_swaps =
     sorted_reverse rank_key (map (set_avg mean \<circ> snd) (aggregate_swaps direct_swaps))"

text \<open>The exact mean over the rationals, used where an example needs concrete rates.\<close>

definition exact_mean :: "rat list \<Rightarrow> rat" where
  "exact_mean rates = sum_list rates / of_nat (length rates)"

text \<open>
  The order of the result, written out: \<open>a\<close> may stand before \<open>b\<close> when its average rate
  is larger, or the rates are equal and its count is not smaller.
\<close>

definition ranked_before :: "'r::linorder path_stat \<Rightarrow> 'r path_stat \<Rightarrow> bool" where
  "ranked_before a b \<longleftrightarrow>
     ps_avgRate a > ps_avgRate b \<or> (ps_avgRate a = ps_avgRate b \<and> ps_count a \<ge> ps_count b)"

text \<open>An aggregated entry with the given path, average rate and count.\<close>

definition stat :: "string \<Rightarrow> rat \<Rightarrow> nat \<Rightarrow> rat path_stat" where
  "stat p a c = \<lparr>ps_path = p, ps_dex = ''Uniswap V2'', ps_count = c, ps_rates = [],
      ps_txHashes = [], ps_bestRate = a, ps_avgRate = a\<rparr>"

text \<open>A match of the similarity search with the given path and rate.\<close>

definition swap_match :: "string \<Rightarrow> rat \<Rightarrow> rat swap_info" where
  "swap_match p r = \<lparr>sw_txHash = ''0x'', sw_dex = ''Uniswap V2'', sw_path = p, sw_swapRate = r\<rparr>"

text \<open>The key of an aggregated entry, from its own path and DEX.\<close>

definition entry_key :: "'r path_stat \<Rightarrow> string" where
  "entry_key s = ps_path s @ '' on '' @ ps_dex s"

text \<open>The positive rates of the matches that fall under a key, in the order of the matches.\<close>

definition rates_under :: "string \<Rightarrow> 'r::{linorder,zero} swap_info list \<Rightarrow> 'r list" where
  "rates_under k ws = filter (\<lambda>r. r > 0) (map sw_swapRate (filter (\<lambda>w. stat_key w = k) ws))"

text \<open>
  What the first loop maintains: the keys are distinct and are those of the matches
  read so far; each entry stands under its own key, counts the matches with that key,
  lists their positive rates, and has no average yet.
\<close>

definition aggregated :: "'r::{linorder,zero} swap_info list \<Rightarrow> (string \<times> 'r path_stat) list \<Rightarrow> bool" where
  "aggregated ws ps =
     (distinct (map fst ps) \<and> set (map fst ps) = stat_key ` set ws
      \<and> list_all (\<lambda>(k, s). entry_key s = k
                \<and> ps_count s = length (filter (\<lambda>w. stat_key w = k) ws)
                \<and> ps_rates s = rates_under k ws \<and> ps_avgRate s = 0) ps)"

section \<open>Text\<close>

text \<open>
  Python strings are modelled as \<open>string\<close>, a list of characters, read as ASCII text:
  a character outside the letters, digits and white space below is an ordinary
  character that \<^verbatim>\<open>upper\<close> and \<^verbatim>\<open>lower\<close> leave alone.
\<close>

definition lowercase :: string where
  "lowercase = ''abcdefghijklmnopqrstuvwxyz''"

definition uppercase :: string where
  "uppercase = ''ABCDEFGHIJKLMNOPQRSTUVWXYZ''"

definition to_upper :: "char \<Rightarrow> char" where
  "to_upper c = (case map_of (zip lowercase uppercase) c of Some u \<Rightarrow> u | None \<Rightarrow> c)"

definition to_lower :: "char \<Rightarrow> char" where
  "to_lower c = (case map_of (zip uppercase lowercase) c of Some l \<Rightarrow> l | None \<Rightarrow> c)"

text \<open>\<^verbatim>\<open>s.upper()\<close> and \<^verbatim>\<open>s.lower()\<close>\<close>

definition upper :: "string \<Rightarrow> string" where
  "upper s = map to_upper s"



section \<open>data\_fetcher.py: the chain-data request with retries\<close>












section \<open>swap\_executor.py: building and executing a swap\<close>

subsection \<open>The registry\<close>

definition TOKEN_ADDRESSES :: "(string \<times> string) list" where
  "TOKEN_ADDRESSES =
     [(''ETH'', ''0xEeeeeEeeeEeEeeEeEeEeeEEEeeeeEeeeeeeeEEeE''),
      (''WETH'', ''0xC02aaA39b223FE8D0A0e5C4F27eAD9083C756Cc2''),
      (''USDC'', ''0xA0b86991c6218b36c1d19D4a2e9Eb0cE3606eB48''),
      (''USDT'', ''0xdAC17F958D2ee523a2206206994597C13D831ec7''),
      (''DAI'', ''0x6B175474E89094C44Da98b954EedeAC495271d0F''),
      (''WBTC'', ''0x2260FAC5E5542a773Aa44fBCfeDf7C193bc2C599'')]"

definition DEX_ROUTER_ADDRESSES :: "(string \<times> string) list" where
  "DEX_ROUTER_ADDRESSES =
     [(''Uniswap V2'', ''0x7a250d5630B4cF539739dF2C5dAcb4c659F2488D''),
      (''Uniswap V3'', ''0xE592427A0AEce92De3Edee1F18E0157C05861564''),
      (''SushiSwap'', ''0xd9e1cE17f2641f24aE83637ab66a2cca9C378B9F''),
      (''1inch'', ''0x1111111254fb6c44bAC0beD2854e76F90643097d'')]"

text \<open>\<^verbatim>\<open>key in d\<close> for a dictionary held as an association list.\<close>

definition has_key :: "(string \<times> 'v) list \<Rightarrow> string \<Rightarrow> bool" where
  "has_key d k = (map_of d k \<noteq> None)"

subsection \<open>Contract calls, transactions and what the executor does to the outside\<close>

text \<open>
  The contract functions of the two ABIs that the executor calls, with their arguments:
  \<^verbatim>\<open>approve(_spender, _value)\<close> of a token, and the three swap functions of a router
  (amounts, path, recipient, deadline).
\<close>

datatype call =
    Approve string int
  | SwapExactETHForTokens int "string list" string int
  | SwapExactTokensForETH int int "string list" string int
  | SwapExactTokensForTokens int int "string list" string int

text \<open>
  A transaction dictionary as \<^verbatim>\<open>build_transaction\<close> receives it: the contract, the
  call, and the parameters the executor passes (\<^verbatim>\<open>value\<close> and \<^verbatim>\<open>gasPrice\<close> are
  \<open>None\<close> where the executor leaves them out).
\<close>

record tx =
  tx_contract :: string
  tx_call :: call
  tx_from :: string
  tx_amount :: "int option"
  tx_gas :: int
  tx_gasPrice :: "int option"
  tx_nonce :: int
  tx_chainId :: nat

text \<open>
  Every call the executor makes to the node or to the signing library, in the order it
  makes them. \<open>EstimateGas\<close> carries the contract, the call, the sender and the attached
  amount; \<open>WaitForReceipt\<close> the transaction hash and the timeout in seconds.
\<close>

datatype event =
    EthGetBalance string
  | CallBalanceOf string string
  | CallDecimals string
  | EthGasPrice
  | EthGetTransactionCount string
  | EstimateGas string call string "int option"
  | BuildTransaction tx
  | SignTransaction tx string
  | SendRawTransaction tx
  | WaitForReceipt int nat

text \<open>
  The failures of the executor. Python raises \<^verbatim>\<open>ValueError\<close> with a different message
  for each of the first kinds; \<open>LibraryError\<close> is an exception raised inside web3
  (the node cannot be reached, a call is rejected, a receipt does not come in time).
\<close>

datatype error =
    NoWallet
  | InvalidDestination string
  | UnknownSourceToken string
  | UnknownDestinationToken string
  | UnknownToken string
  | InsufficientBalance string
  | UnsupportedDEX string
  | UnknownDEX string
  | KeyError string
  | InvalidAddress string
  | LibraryError string

text \<open>
  Everything outside the executor. \<open>chain\<close> answers a call given the calls made before it:
  a number (a balance, a count, a gas estimate, a hash, a receipt status) or the text
  of the exception raised. \<open>to_checksum_address\<close> is the function of eth\_utils
  (\<open>None\<close> is its \<^verbatim>\<open>ValueError\<close>) and \<open>hex_of\<close> is \<^verbatim>\<open>tx_hash.hex()\<close>.
  The executor computes amounts in Python floats and decimals; their type is \<open>'n\<close> and
  each arithmetic expression of the source is a field, named by what it stands for:
  \<^item> \<open>from_wei b\<close>: \<^verbatim>\<open>web3.from_wei(balance_wei, 'ether')\<close>
  \<^item> \<open>readable b d\<close>: \<^verbatim>\<open>balance / (10 ** decimals)\<close>
  \<^item> \<open>less_amount b a\<close>: \<^verbatim>\<open>balance < amount\<close>
  \<^item> \<open>to_wei a\<close>: \<^verbatim>\<open>web3.to_wei(amount, 'ether')\<close>
  \<^item> \<open>scaled a d\<close>: \<^verbatim>\<open>int(amount * (10 ** decimals))\<close>
  \<^item> \<open>min_out w s\<close>: \<^verbatim>\<open>int(amount_in_wei * (1 - slippage / 100))\<close>
  \<^item> \<open>with_margin g\<close>: \<^verbatim>\<open>int(gas_estimate * 1.2)\<close>
  \<^item> \<open>deadline_at t\<close>: \<^verbatim>\<open>int(time.time() + 30 * 60)\<close>, read after the calls \<open>t\<close>.
\<close>

record 'n env =
  chain :: "event list \<Rightarrow> event \<Rightarrow> string + int"
  to_checksum_address :: "string \<Rightarrow> string option"
  hex_of :: "int \<Rightarrow> string"
  from_wei :: "int \<Rightarrow> 'n"
  readable :: "int \<Rightarrow> int \<Rightarrow> 'n"
  less_amount :: "'n \<Rightarrow> 'n \<Rightarrow> bool"
  to_wei :: "'n \<Rightarrow> int"
  scaled :: "'n \<Rightarrow> int \<Rightarrow> int"
  min_out :: "int \<Rightarrow> 'n \<Rightarrow> int"
  with_margin :: "int \<Rightarrow> int"
  deadline_at :: "event list \<Rightarrow> int"

text \<open>
  The loaded wallet: \<^verbatim>\<open>load_wallet\<close> sets \<^verbatim>\<open>self.account\<close> and \<^verbatim>\<open>self.address\<close>
  together, so they are one optional field; \<open>None\<close> is the state before a wallet is loaded.
\<close>

record wallet =
  wallet_address :: string
  wallet_key :: string

record executor =
  test_mode :: bool
  chain_id :: nat
  account :: "wallet option"

subsection \<open>Actions: a result or an error, and the calls made\<close>

type_synonym 'a action = "event list \<Rightarrow> (error + 'a) \<times> event list"

definition return_act :: "'a \<Rightarrow> 'a action" where
  "return_act x = (\<lambda>t. (Inr x, t))"

definition raise :: "error \<Rightarrow> 'a action" where
  "raise e = (\<lambda>t. (Inl e, t))"

definition bind_act :: "'a action \<Rightarrow> ('a \<Rightarrow> 'b action) \<Rightarrow> 'b action" where
  "bind_act m f = (\<lambda>t. case m t of (Inl e, t') \<Rightarrow> (Inl e, t') | (Inr x, t') \<Rightarrow> f x t')"

text \<open>One call to the outside: it is recorded, and its exception is raised on.\<close>

definition rpc :: "'n env \<Rightarrow> event \<Rightarrow> int action" where
  "rpc e ev = (\<lambda>t. (case chain e t ev of Inl msg \<Rightarrow> Inl (LibraryError msg) | Inr v \<Rightarrow> Inr v,
                      t @ [ev]))"

text \<open>\<^verbatim>\<open>self.web3.to_checksum_address(a)\<close> outside a \<^verbatim>\<open>try\<close>.\<close>

definition checksum :: "'n env \<Rightarrow> string \<Rightarrow> string action" where
  "checksum e a = (case to_checksum_address e a of None \<Rightarrow> raise (InvalidAddress a)
                   | Some c \<Rightarrow> return_act c)"

text \<open>\<^verbatim>\<open>d[k]\<close>\<close>

definition item :: "(string \<times> string) list \<Rightarrow> string \<Rightarrow> string action" where
  "item d k = (case map_of d k of None \<Rightarrow> raise (KeyError k) | Some v \<Rightarrow> return_act v)"

text \<open>
  The gas of a swap: \<^verbatim>\<open>int(gas_estimate * 1.2)\<close>, or 300000 when the estimate raises
  (\<^verbatim>\<open>except Exception\<close>).
\<close>

definition gas_or_fallback :: "'n env \<Rightarrow> event \<Rightarrow> int action" where
  "gas_or_fallback e ev =
     (\<lambda>t. (Inr (case chain e t ev of Inl msg \<Rightarrow> 300000 | Inr g \<Rightarrow> with_margin e g), t @ [ev]))"

text \<open>\<^verbatim>\<open>int(time.time() + 30 * 60)\<close>: the clock is read, no call is made.\<close>

definition read_deadline :: "'n env \<Rightarrow> int action" where
  "read_deadline e = (\<lambda>t. (Inr (deadline_at e t), t))"

subsection \<open>The methods\<close>

text \<open>Python's truth value of a string.\<close>

definition truthy :: "string \<Rightarrow> bool" where
  "truthy s = (s \<noteq> [])"

text \<open>\<^verbatim>\<open>_get_token_contract\<close> and \<^verbatim>\<open>_get_router_contract\<close>: a contract is its checked address.\<close>

definition get_token_contract :: "'n env \<Rightarrow> string \<Rightarrow> string action" where
  "get_token_contract e token_address = checksum e token_address"

definition get_router_contract :: "'n env \<Rightarrow> string \<Rightarrow> string action" where
  "get_router_contract e dex_name =
     (if \<not> has_key DEX_ROUTER_ADDRESSES dex_name then raise (UnsupportedDEX dex_name)
      else bind_act (item DEX_ROUTER_ADDRESSES dex_name) (checksum e))"

definition get_token_balance :: "'n env \<Rightarrow> executor \<Rightarrow> string \<Rightarrow> 'n action" where
  "get_token_balance e self token_symbol =
     (case account self of
        None \<Rightarrow> raise NoWallet
      | Some w \<Rightarrow>
          if \<not> truthy (wallet_address w) then raise NoWallet
          else if token_symbol = ''ETH''
          then bind_act (rpc e (EthGetBalance (wallet_address w)))
                 (\<lambda>balance_wei. return_act (from_wei e balance_wei))
          else if \<not> has_key TOKEN_ADDRESSES token_symbol then raise (UnknownToken token_symbol)
          else
            bind_act (item TOKEN_ADDRESSES token_symbol) (\<lambda>a.
            bind_act (checksum e a) (\<lambda>token_address.
            bind_act (get_token_contract e token_address) (\<lambda>token_contract.
            bind_act (rpc e (CallBalanceOf token_contract (wallet_address w))) (\<lambda>balance.
            bind_act (rpc e (CallDecimals token_contract)) (\<lambda>decimals.
            return_act (readable e balance decimals)))))))"

definition unlimited :: int where
  "unlimited = 2 ^ 256 - 1"



text \<open>The \<^verbatim>\<open>details\<close> of the dictionary that \<^verbatim>\<open>generate_swap_transaction\<close> returns.\<close>

record 'n details =
  d_from_token :: string
  d_to_token :: string
  d_amount :: 'n
  d_dex :: string
  d_slippage :: 'n
  d_destination :: string
  d_path :: "string list"
  d_min_amount_out :: int

text \<open>The returned dictionary; \<open>sd_test_mode\<close> says whether it has the key \<^verbatim>\<open>"test_mode"\<close>.\<close>

record 'n swap_data =
  sd_test_mode :: bool
  tx_data :: tx
  details :: "'n details"

text \<open>
  The three branches on the kinds of the two tokens: the call, and the amount attached
  to the transaction (only the first branch sends \<^verbatim>\<open>value\<close>).
\<close>

definition swap_call ::
  "string \<Rightarrow> string \<Rightarrow> int \<Rightarrow> int \<Rightarrow> string list \<Rightarrow> string \<Rightarrow> int \<Rightarrow> call \<times> int option" where
  "swap_call from_token to_token amount_in_wei amount_out_min path destination deadline =
     (if from_token = ''ETH'' \<and> to_token \<noteq> ''ETH''
      then (SwapExactETHForTokens amount_out_min path destination deadline, Some amount_in_wei)
      else if from_token \<noteq> ''ETH'' \<and> to_token = ''ETH''
      then (SwapExactTokensForETH amount_in_wei amount_out_min path destination deadline, None)
      else (SwapExactTokensForTokens amount_in_wei amount_out_min path destination deadline, None))"

text \<open>\<^verbatim>\<open>destination = destination_address if destination_address else self.address\<close>\<close>

definition chosen_destination :: "wallet \<Rightarrow> string option \<Rightarrow> string" where
  "chosen_destination w destination_address =
     (case destination_address of
        Some d \<Rightarrow> if truthy d then d else wallet_address w
      | None \<Rightarrow> wallet_address w)"

text \<open>
  The \<^verbatim>\<open>if destination:\<close> block: the checksum conversion, whose \<^verbatim>\<open>ValueError\<close> is
  raised on as the error of an invalid destination.
\<close>

definition checked_destination :: "'n env \<Rightarrow> string \<Rightarrow> string action" where
  "checked_destination e destination =
     (if truthy destination
      then (case to_checksum_address e destination of
              None \<Rightarrow> raise (InvalidDestination destination)
            | Some c \<Rightarrow> return_act c)
      else return_act destination)"

text \<open>The destination passes the check: it is empty, or the conversion accepts it.\<close>

definition destination_accepted :: "'n env \<Rightarrow> string \<Rightarrow> bool" where
  "destination_accepted e destination =
     (if truthy destination then to_checksum_address e destination \<noteq> None else True)"

text \<open>\<^verbatim>\<open>token not in TOKEN_ADDRESSES and token != "ETH"\<close>\<close>

definition unknown_token :: "string \<Rightarrow> bool" where
  "unknown_token token = (\<not> has_key TOKEN_ADDRESSES token \<and> token \<noteq> ''ETH'')"

definition generate_swap_transaction ::
  "'n env \<Rightarrow> executor \<Rightarrow> string \<Rightarrow> string \<Rightarrow> 'n \<Rightarrow> string \<Rightarrow> 'n \<Rightarrow> string option
     \<Rightarrow> 'n swap_data action" where
  "generate_swap_transaction e self from_token to_token amount dex_name slippage destination_address =
     (case account self of
        None \<Rightarrow> raise NoWallet
      | Some w \<Rightarrow>
          bind_act (checked_destination e (chosen_destination w destination_address))
            (\<lambda>destination.
          if unknown_token from_token then raise (UnknownSourceToken from_token)
          else if unknown_token to_token then raise (UnknownDestinationToken to_token)
          else
            bind_act (get_token_balance e self from_token) (\<lambda>balance.
            if less_amount e balance amount then raise (InsufficientBalance from_token)
            else
              bind_act (get_router_contract e dex_name) (\<lambda>router.
              bind_act (item DEX_ROUTER_ADDRESSES dex_name) (\<lambda>r.
              bind_act (checksum e r) (\<lambda>router_address.
              bind_act (bind_act (item TOKEN_ADDRESSES
                                   (if from_token = ''ETH'' then ''WETH'' else from_token))
                                 (checksum e)) (\<lambda>path0.
              bind_act (bind_act (item TOKEN_ADDRESSES
                                   (if to_token = ''ETH'' then ''WETH'' else to_token))
                                 (checksum e)) (\<lambda>path1.
              let path = [path0, path1] in
              bind_act (read_deadline e) (\<lambda>deadline.
              bind_act (if from_token = ''ETH'' then return_act (to_wei e amount)
                        else bind_act (item TOKEN_ADDRESSES from_token) (\<lambda>a.
                             bind_act (get_token_contract e a) (\<lambda>token_contract.
                             bind_act (rpc e (CallDecimals token_contract)) (\<lambda>decimals.
                             return_act (scaled e amount decimals))))) (\<lambda>amount_in_wei.
              let amount_out_min = min_out e amount_in_wei slippage;
                  (the_call, attached) =
                     swap_call from_token to_token amount_in_wei amount_out_min path
                       destination deadline
              in
              bind_act (rpc e (EthGetTransactionCount (wallet_address w))) (\<lambda>nonce.
              bind_act (gas_or_fallback e
                          (EstimateGas router the_call (wallet_address w) attached)) (\<lambda>gas.
              let tx = \<lparr>tx_contract = router, tx_call = the_call,
                        tx_from = wallet_address w, tx_amount = attached, tx_gas = gas,
                        tx_gasPrice = None, tx_nonce = nonce, tx_chainId = chain_id self\<rparr>
              in
              bind_act (rpc e (BuildTransaction tx)) (\<lambda>_.
              return_act
                \<lparr>sd_test_mode = test_mode self, tx_data = tx,
                 details = \<lparr>d_from_token = from_token, d_to_token = to_token,
                            d_amount = amount, d_dex = dex_name, d_slippage = slippage,
                            d_destination = destination, d_path = path,
                            d_min_amount_out = amount_out_min\<rparr>\<rparr>)))))))))))))"

text \<open>
  \<^verbatim>\<open>execute_swap\<close>. The argument \<open>test_mode_arg\<close> is \<open>None\<close> when the caller leaves
  \<^verbatim>\<open>test_mode\<close> out. The result is the returned string, \<open>None\<close> for Python's \<^verbatim>\<open>None\<close>.
\<close>

definition execute_swap ::
  "'n env \<Rightarrow> executor \<Rightarrow> string \<Rightarrow> string \<Rightarrow> 'n \<Rightarrow> string \<Rightarrow> 'n \<Rightarrow> string option
     \<Rightarrow> bool option \<Rightarrow> string option action" where
  "execute_swap e self from_token to_token amount dex_name slippage destination_address test_mode_arg =
     (let test = (case test_mode_arg of None \<Rightarrow> test_mode self | Some b \<Rightarrow> b) in
      case account self of
        None \<Rightarrow> raise NoWallet
      | Some w \<Rightarrow>
          bind_act (generate_swap_transaction e self from_token to_token amount dex_name
                      slippage destination_address) (\<lambda>swap_data.
          if test then return_act (Some ''test_tx_hash'')
          else
            bind_act (rpc e (SignTransaction (tx_data swap_data) (wallet_key w))) (\<lambda>_.
            bind_act (rpc e (SendRawTransaction (tx_data swap_data))) (\<lambda>tx_hash.
            bind_act (rpc e (WaitForReceipt tx_hash 300)) (\<lambda>status.
            if status = 1 then return_act (Some (hex_of e tx_hash))
            else return_act None)))))"

subsection \<open>Reading a run\<close>

text \<open>The allowance an event asks for or grants, when it concerns an \<^verbatim>\<open>approve\<close> call.\<close>

fun approval_of_call :: "call \<Rightarrow> (string \<times> int) option" where
  "approval_of_call (Approve spender v) = Some (spender, v)"
| "approval_of_call _ = None"


text \<open>The broadcast: \<^verbatim>\<open>send_raw_transaction\<close>.\<close>

fun is_broadcast :: "event \<Rightarrow> bool" where
  "is_broadcast (SendRawTransaction t) = True"
| "is_broadcast _ = False"


text \<open>
  \<open>adds P m\<close>: from every list of earlier calls, the action \<open>m\<close> only appends calls, and
  each call it appends satisfies \<open>P\<close>.
\<close>

definition adds :: "(event \<Rightarrow> bool) \<Rightarrow> 'a action \<Rightarrow> bool" where
  "adds P m \<longleftrightarrow> (\<forall>t. \<exists>evs. snd (m t) = t @ evs \<and> list_all P evs)"



subsection \<open>A node and a wallet for the examples\<close>

text \<open>
  A node that answers every call: 5 ETH and 1000 units of a 6-decimal token in the
  wallet, gas price 20 gwei, nonce 7, a gas estimate of 100000, the hash 2748 for a
  sent transaction and a receipt with status 1.
\<close>

fun demo_chain :: "event list \<Rightarrow> event \<Rightarrow> string + int" where
  "demo_chain t (EthGetBalance a) = Inr (5 * 10 ^ 18)"
| "demo_chain t (CallBalanceOf c a) = Inr (1000 * 10 ^ 6)"
| "demo_chain t (CallDecimals c) = Inr 6"
| "demo_chain t EthGasPrice = Inr 20000000000"
| "demo_chain t (EthGetTransactionCount a) = Inr 7"
| "demo_chain t (EstimateGas c f s a) = Inr 100000"
| "demo_chain t (BuildTransaction x) = Inr 0"
| "demo_chain t (SignTransaction x k) = Inr 0"
| "demo_chain t (SendRawTransaction x) = Inr 2748"
| "demo_chain t (WaitForReceipt h n) = Inr 1"

text \<open>
  Exact rational arithmetic for the amounts, and a stand-in for the checksum function
  that accepts the strings of 42 characters and returns them as they are (the
  addresses of the registry are written in their checksummed form).
\<close>

definition demo_env :: "rat env" where
  "demo_env =
     \<lparr>chain = demo_chain,
      to_checksum_address = (\<lambda>a. if length a = 42 then Some a else None),
      hex_of = (\<lambda>h. ''0xabc''),
      from_wei = (\<lambda>b. of_int b / 10 ^ 18),
      readable = (\<lambda>b d. of_int b / 10 ^ nat d),
      less_amount = (\<lambda>b a. b < a),
      to_wei = (\<lambda>a. \<lfloor>a * 10 ^ 18\<rfloor>),
      scaled = (\<lambda>a d. \<lfloor>a * 10 ^ nat d\<rfloor>),
      min_out = (\<lambda>w s. \<lfloor>of_int w * (1 - s / 100)\<rfloor>),
      with_margin = (\<lambda>g. \<lfloor>(of_int g :: rat) * 12 / 10\<rfloor>),
      deadline_at = (\<lambda>t. 1700001800)\<rparr>"

definition demo_wallet :: wallet where
  "demo_wallet = \<lparr>wallet_address = ''0x52908400098527886E0F7030069857D2E4169EE7'',
                  wallet_key = ''key''\<rparr>"

text \<open>An executor with the wallet loaded, sending for real, and one in test mode.\<close>

definition live_executor :: executor where
  "live_executor = \<lparr>test_mode = False, chain_id = 1, account = Some demo_wallet\<rparr>"

definition test_executor :: executor where
  "test_executor = \<lparr>test_mode = True, chain_id = 1, account = Some demo_wallet\<rparr>"

text \<open>An executor before any wallet is loaded, in test mode.\<close>

definition no_wallet_executor :: executor where
  "no_wallet_executor = \<lparr>test_mode = True, chain_id = 1, account = None\<rparr>"

text \<open>The checksummed addresses and the transactions that the example runs produce.\<close>

definition usdc :: string where
  "usdc = ''0xA0b86991c6218b36c1d19D4a2e9Eb0cE3606eB48''"

definition weth :: string where
  "weth = ''0xC02aaA39b223FE8D0A0e5C4F27eAD9083C756Cc2''"

definition uniswap_v2 :: string where
  "uniswap_v2 = ''0x7a250d5630B4cF539739dF2C5dAcb4c659F2488D''"

definition holder :: string where
  "holder = ''0x52908400098527886E0F7030069857D2E4169EE7''"

definition approve_tx :: tx where
  "approve_tx = \<lparr>tx_contract = usdc, tx_call = Approve uniswap_v2 unlimited, tx_from = holder,
     tx_amount = None, tx_gas = 120000, tx_gasPrice = Some 20000000000, tx_nonce = 7,
     tx_chainId = 1\<rparr>"

definition usdc_to_eth :: call where
  "usdc_to_eth = SwapExactTokensForETH 1000000 995000 [usdc, weth] holder 1700001800"

definition swap_tx :: tx where
  "swap_tx = \<lparr>tx_contract = uniswap_v2, tx_call = usdc_to_eth, tx_from = holder,
     tx_amount = None, tx_gas = 120000, tx_gasPrice = None, tx_nonce = 7, tx_chainId = 1\<rparr>"

definition eth_to_usdc :: call where
  "eth_to_usdc = SwapExactETHForTokens 995000000000000000 [weth, usdc] holder 1700001800"

definition eth_swap_tx :: tx where
  "eth_swap_tx = \<lparr>tx_contract = uniswap_v2, tx_call = eth_to_usdc, tx_from = holder,
     tx_amount = Some 1000000000000000000, tx_gas = 120000, tx_gasPrice = None, tx_nonce = 7,
     tx_chainId = 1\<rparr>"

section \<open>Regular expressions as Python's \<^verbatim>\<open>re\<close> module matches them\<close>

text \<open>
  The patterns of \<^verbatim>\<open>query_engine.py\<close> are built from character classes, sequence,
  ordered alternative, the greedy star and capturing groups. \<open>Sym p\<close> matches one
  character that satisfies \<open>p\<close>.
\<close>

datatype rx =
    Sym "char \<Rightarrow> bool"
  | Eps
  | Seq rx rx
  | Alt rx rx
  | Star rx
  | Grp nat rx

text \<open>The character classes \<^verbatim>\<open>\d\<close>, \<^verbatim>\<open>\s\<close>, \<^verbatim>\<open>[A-Za-z]\<close> and \<^verbatim>\<open>[A-Z]\<close> on ASCII text.
  For a string pattern \<^verbatim>\<open>\s\<close> is Python's \<^verbatim>\<open>str.isspace\<close>: the characters 9 to 13,
  28 to 31 and the blank.\<close>

definition is_digit :: "char \<Rightarrow> bool" where
  "is_digit c = (c \<in> set ''0123456789'')"

definition is_space :: "char \<Rightarrow> bool" where
  "is_space c = (of_char c \<in> {9, 10, 11, 12, 13, 28, 29, 30, 31, 32 :: nat})"

definition is_upper :: "char \<Rightarrow> bool" where
  "is_upper c = (c \<in> set uppercase)"

definition is_alpha :: "char \<Rightarrow> bool" where
  "is_alpha c = (c \<in> set uppercase \<or> c \<in> set lowercase)"

text \<open>\<^verbatim>\<open>r+\<close>, \<^verbatim>\<open>r?\<close> (both greedy), and a literal word under \<^verbatim>\<open>re.IGNORECASE\<close>.\<close>

definition plus_rx :: "rx \<Rightarrow> rx" where
  "plus_rx r = Seq r (Star r)"

definition opt :: "rx \<Rightarrow> rx" where
  "opt r = Alt r Eps"

definition letter :: "char \<Rightarrow> rx" where
  "letter x = Sym (\<lambda>c. to_lower c = x)"

fun word :: "string \<Rightarrow> rx" where
  "word [] = Eps"
| "word (x # xs) = Seq (letter x) (word xs)"

text \<open>A sequence of patterns, and a choice between patterns, the first one first.\<close>

fun seqs :: "rx list \<Rightarrow> rx" where
  "seqs [] = Eps"
| "seqs [r] = r"
| "seqs (r # rs) = Seq r (seqs rs)"

fun alts :: "rx list \<Rightarrow> rx" where
  "alts [] = Sym (\<lambda>c. False)"
| "alts [r] = r"
| "alts (r # rs) = Alt r (alts rs)"

text \<open>
  The groups captured so far, newest first, and \<^verbatim>\<open>m.group(n)\<close>: \<open>None\<close> when the
  group took no part in the match.
\<close>

type_synonym captures = "(nat \<times> string) list"

definition group_of :: "captures \<Rightarrow> nat \<Rightarrow> string option" where
  "group_of caps n = map_of caps n"

text \<open>
  The backtracking matcher. \<open>matches r (s, caps)\<close> lists, in the order in which Python
  tries them, the ways in which \<open>r\<close> can match at the start of \<open>s\<close>: each with the rest of
  the text after the match and the groups captured. An alternative tries its left
  side first; a star tries one more round first (and takes a round only if it consumed
  a character); a group records the text it consumed.
\<close>

function matches :: "rx \<Rightarrow> string \<times> captures \<Rightarrow> (string \<times> captures) list" where
  "matches (Sym p) (s, caps) = (case s of [] \<Rightarrow> [] | c # cs \<Rightarrow> if p c then [(cs, caps)] else [])"
| "matches Eps st = [st]"
| "matches (Seq a b) st = concat (map (matches b) (matches a st))"
| "matches (Alt a b) st = matches a st @ matches b st"
| "matches (Star a) (s, caps) =
     concat (map (\<lambda>st'. if length (fst st') < length s then matches (Star a) st' else [])
                 (matches a (s, caps))) @ [(s, caps)]"
| "matches (Grp n a) (s, caps) =
     map (\<lambda>st'. (fst st', (n, take (length s - length (fst st')) s) # snd st'))
         (matches a (s, caps))"
  by pat_completeness auto
termination
  by (relation "measures [\<lambda>(r, st). size r, \<lambda>(r, st). length (fst st)]") auto

text \<open>
  \<^verbatim>\<open>re.search\<close>: the first position of the text at which the pattern matches, with the
  first way of matching there. The result is the matched text and the groups.
\<close>

fun search :: "rx \<Rightarrow> string \<Rightarrow> (string \<times> captures) option" where
  "search r [] = (case matches r ([], []) of [] \<Rightarrow> None | (rest, caps) # _ \<Rightarrow> Some ([], caps))"
| "search r (c # cs) =
     (case matches r (c # cs, []) of
        [] \<Rightarrow> search r cs
      | (rest, caps) # _ \<Rightarrow> Some (take (length (c # cs) - length rest) (c # cs), caps))"

text \<open>
  \<^verbatim>\<open>re.findall\<close> for a pattern without groups: the matches from left to right, without
  overlap. After a match the scan goes on behind it, else one character further. (A
  pattern that matches the empty text gives an empty item and the scan moves by one
  character; the pattern of this program never matches the empty text.)
\<close>

function findall :: "rx \<Rightarrow> string \<Rightarrow> string list" where
  "findall r [] = (case matches r ([], []) of [] \<Rightarrow> [] | _ # _ \<Rightarrow> [[]])"
| "findall r (c # cs) =
     (case matches r (c # cs, []) of
        [] \<Rightarrow> findall r cs
      | st' # _ \<Rightarrow>
          if length (fst st') < length (c # cs)
          then take (length (c # cs) - length (fst st')) (c # cs) # findall r (fst st')
          else [] # findall r cs)"
  by pat_completeness auto
termination
  by (relation "measure (\<lambda>(r, s). length s)") auto

text \<open>The words a pattern matches, for reasoning about the matcher.\<close>

inductive_set star :: "string set \<Rightarrow> string set" for A :: "string set" where
  star_empty: "[] \<in> star A"
| star_step: "u \<in> A \<Longrightarrow> v \<in> star A \<Longrightarrow> u @ v \<in> star A"

fun lang :: "rx \<Rightarrow> string set" where
  "lang (Sym p) = {[c] | c. p c}"
| "lang Eps = {[]}"
| "lang (Seq a b) = {u @ v | u v. u \<in> lang a \<and> v \<in> lang b}"
| "lang (Alt a b) = lang a \<union> lang b"
| "lang (Star a) = star (lang a)"
| "lang (Grp n a) = lang a"

text \<open>The groups that every match of a pattern sets.\<close>

fun sets_groups :: "rx \<Rightarrow> nat set" where
  "sets_groups (Sym p) = {}"
| "sets_groups Eps = {}"
| "sets_groups (Seq a b) = sets_groups a \<union> sets_groups b"
| "sets_groups (Alt a b) = sets_groups a \<inter> sets_groups b"
| "sets_groups (Star a) = {}"
| "sets_groups (Grp n a) = insert n (sets_groups a)"

section \<open>query\_engine.py: parsing a swap query\<close>

text \<open>\<^verbatim>\<open>(\d+(?:\.\d+)?)\<close> without its group.\<close>

definition number :: rx where
  "number = seqs [plus_rx (Sym is_digit), opt (seqs [Sym (\<lambda>c. c = CHR ''.''), plus_rx (Sym is_digit)])]"

text \<open>\<^verbatim>\<open>amount_pattern = r'(\d+(?:\.\d+)?)\s*([A-Za-z]+)'\<close>\<close>

definition amount_pattern :: rx where
  "amount_pattern = seqs [Grp 1 number, Star (Sym is_space), Grp 2 (plus_rx (Sym is_alpha))]"

text \<open>\<^verbatim>\<open>(?:from|swap|convert|exchange)\<close> and \<^verbatim>\<open>(?:to|for|into)\<close>\<close>

definition verb_cue :: rx where
  "verb_cue = alts [word ''from'', word ''swap'', word ''convert'', word ''exchange'']"

definition transition_cue :: rx where
  "transition_cue = alts [word ''to'', word ''for'', word ''into'']"

text \<open>
  \<^verbatim>\<open>token_pattern = r'(?:from|swap|convert|exchange)\s+(\d+(?:\.\d+)?)?\s*([A-Za-z]+)\s+(?:to|for|into)\s+([A-Za-z]+)'\<close>,
  used with \<^verbatim>\<open>re.IGNORECASE\<close>.
\<close>

definition token_pattern :: rx where
  "token_pattern =
     seqs [verb_cue, plus_rx (Sym is_space), opt (Grp 1 number), Star (Sym is_space),
           Grp 2 (plus_rx (Sym is_alpha)), plus_rx (Sym is_space), transition_cue,
           plus_rx (Sym is_space), Grp 3 (plus_rx (Sym is_alpha))]"

text \<open>\<^verbatim>\<open>r'[A-Z]{2,}'\<close>\<close>

definition ticker :: rx where
  "ticker = seqs [Sym is_upper, Sym is_upper, Star (Sym is_upper)]"

text \<open>
  The exceptions of this module. Python raises \<^verbatim>\<open>AttributeError\<close> when a method is
  called on the \<^verbatim>\<open>None\<close> of a group that took no part in the match and
  \<^verbatim>\<open>TypeError\<close> when \<^verbatim>\<open>float\<close> is given \<^verbatim>\<open>None\<close>; \<^verbatim>\<open>json.loads\<close> raises
  \<^verbatim>\<open>JSONDecodeError\<close> on a text that is not a JSON document and \<^verbatim>\<open>RecursionError\<close>
  when the nesting is too deep.
\<close>

datatype py_error = AttributeError | TypeError | JSONDecodeError | RecursionError

text \<open>
  \<^verbatim>\<open>parse_swap_query\<close>. The result is \<^verbatim>\<open>(from_token, to_token, amount)\<close>; the amount is
  the text of the number, which Python turns into a float with \<^verbatim>\<open>float\<close>.
\<close>

definition parse_swap_query ::
  "string \<Rightarrow> py_error + (string option \<times> string option \<times> string option)" where
  "parse_swap_query query =
     (case search token_pattern query of
        Some (m, token_match) \<Rightarrow>
          (case (group_of token_match 2, group_of token_match 3) of
             (Some g2, Some g3) \<Rightarrow>
               Inr (Some (upper g2), Some (upper g3),
                    (case group_of token_match 1 of
                       Some amount \<Rightarrow> if truthy amount then Some amount else None
                     | None \<Rightarrow> None))
           | _ \<Rightarrow> Inl AttributeError)
      | None \<Rightarrow>
          (let tokens = findall ticker (upper query);
               amount_match = search amount_pattern query
           in case amount_match of
                Some (m, caps) \<Rightarrow>
                  if length tokens \<ge> 2
                  then (case group_of caps 1 of
                          None \<Rightarrow> Inl TypeError
                        | Some amount \<Rightarrow>
                           (case group_of caps 2 of
                              None \<Rightarrow> Inl AttributeError
                            | Some token \<Rightarrow>
                                if upper token = tokens ! 0
                                then Inr (Some (tokens ! 0), Some (tokens ! 1), Some amount)
                                else Inr (Some (tokens ! 0), Some (tokens ! 1), None)))
                  else Inr (None, None, None)
              | None \<Rightarrow>
                  if length tokens \<ge> 2
                  then Inr (Some (tokens ! 0), Some (tokens ! 1), None)
                  else Inr (None, None, None)))"


section \<open>Python's \<^verbatim>\<open>json.loads\<close>\<close>

text \<open>
  A decoded JSON value. A number keeps its text (Python makes an int or a float of
  it); an object is a dictionary, held as an association list in insertion order.
\<close>

datatype json =
    JNull
  | JBool bool
  | JNumber string
  | JString string
  | JArray "json list"
  | JObject "(string \<times> json) list"

text \<open>The white space of JSON: blank, tab, line feed, carriage return.\<close>

definition json_ws :: "char \<Rightarrow> bool" where
  "json_ws c = (c \<in> set [CHR '' '', CHR 0x09, CHR 0x0A, CHR 0x0D])"

definition skip_ws :: "string \<Rightarrow> string" where
  "skip_ws s = dropWhile json_ws s"

text \<open>The characters after a backslash in a string, and what they stand for.\<close>

definition escapes :: "(char \<times> char) list" where
  "escapes = [(CHR 0x22, CHR 0x22), (CHR 0x5C, CHR 0x5C), (CHR ''/'', CHR ''/''),
              (CHR ''b'', CHR 0x08), (CHR ''f'', CHR 0x0C), (CHR ''n'', CHR 0x0A),
              (CHR ''r'', CHR 0x0D), (CHR ''t'', CHR 0x09)]"

definition is_hex :: "char \<Rightarrow> bool" where
  "is_hex c = (c \<in> set ''0123456789abcdefABCDEF'')"

text \<open>
  \<^verbatim>\<open>py_scanstring\<close> in strict mode, from behind the opening quote: the content and the
  text behind the closing quote, or \<open>None\<close> for an unterminated string, a control
  character or a bad escape. A \<^verbatim>\<open>\uXXXX\<close> escape is checked and kept as written, the
  characters of the model being ASCII.
\<close>

fun scanstring :: "string \<Rightarrow> string \<Rightarrow> (string \<times> string) option" where
  "scanstring acc [] = None"
| "scanstring acc (c # cs) =
     (if c = CHR 0x22 then Some (rev acc, cs)
      else if c = CHR 0x5C then
        (case cs of
           [] \<Rightarrow> None
         | e # cs' \<Rightarrow>
             if e = CHR ''u''
             then (if 4 \<le> length cs' \<and> list_all is_hex (take 4 cs')
                   then scanstring (rev (take 4 cs') @ e # c # acc) (drop 4 cs')
                   else None)
             else (case map_of escapes e of
                     Some d \<Rightarrow> scanstring (d # acc) cs'
                   | None \<Rightarrow> None))
      else if (of_char c :: nat) < 32 then None
      else scanstring (c # acc) cs)"

text \<open>\<^verbatim>\<open>NUMBER_RE = r'(-?(?:0|[1-9]\d*))(\.\d+)?([eE][-+]?\d+)?'\<close>\<close>

definition number_re :: rx where
  "number_re =
     seqs [opt (Sym (\<lambda>c. c = CHR ''-'')),
           alts [Sym (\<lambda>c. c = CHR ''0''),
                 seqs [Sym (\<lambda>c. c \<in> set ''123456789''), Star (Sym is_digit)]],
           opt (seqs [Sym (\<lambda>c. c = CHR ''.''), plus_rx (Sym is_digit)]),
           opt (seqs [Sym (\<lambda>c. c \<in> set ''eE''), opt (Sym (\<lambda>c. c \<in> set ''-+'')),
                      plus_rx (Sym is_digit)])]"

text \<open>\<^verbatim>\<open>NUMBER_RE.match\<close> at the start of the text: the number and the text behind it.\<close>

definition match_number :: "string \<Rightarrow> (string \<times> string) option" where
  "match_number s =
     (case matches number_re (s, []) of
        [] \<Rightarrow> None
      | (rest, caps) # _ \<Rightarrow> Some (take (length s - length rest) s, rest))"

text \<open>\<^verbatim>\<open>s.startswith(p)\<close>, and the text behind the prefix.\<close>

definition startswith :: "string \<Rightarrow> string \<Rightarrow> bool" where
  "startswith s p = (take (length p) s = p)"

text \<open>
  The scanner \<^verbatim>\<open>scan_once\<close> with \<^verbatim>\<open>JSONObject\<close> and \<^verbatim>\<open>JSONArray\<close>. Each takes the
  text from its position on and returns the value with the text behind it. The first
  argument bounds the number of nested calls: every call consumes a character, so
  a bound above the length of the text is never reached, and running out of it is
  reported apart, as \<open>RecursionError\<close>. \<open>JSONObject\<close> starts at the quote of a key and
  \<open>JSONArray\<close> at an item, each with the pairs and items read so far.
\<close>

fun scan_once :: "nat \<Rightarrow> string \<Rightarrow> py_error + (json \<times> string)"
  and JSONObject :: "nat \<Rightarrow> string \<Rightarrow> (string \<times> json) list \<Rightarrow> py_error + (json \<times> string)"
  and JSONArray :: "nat \<Rightarrow> string \<Rightarrow> json list \<Rightarrow> py_error + (json \<times> string)" where
  "scan_once 0 s = Inl RecursionError"
| "scan_once (Suc n) [] = Inl JSONDecodeError"
| "scan_once (Suc n) (c # cs) =
     (if c = CHR 0x22 then
        (case scanstring [] cs of
           None \<Rightarrow> Inl JSONDecodeError
         | Some (str, rest) \<Rightarrow> Inr (JString str, rest))
      else if c = CHR ''{'' then
        (case skip_ws cs of
           [] \<Rightarrow> Inl JSONDecodeError
         | d # rest \<Rightarrow>
             if d = CHR ''}'' then Inr (JObject [], rest)
             else if d = CHR 0x22 then JSONObject n (d # rest) []
             else Inl JSONDecodeError)
      else if c = CHR ''['' then
        (case skip_ws cs of
           [] \<Rightarrow> Inl JSONDecodeError
         | d # rest \<Rightarrow>
             if d = CHR '']'' then Inr (JArray [], rest)
             else JSONArray n (d # rest) [])
      else if startswith (c # cs) ''null'' then Inr (JNull, drop 4 (c # cs))
      else if startswith (c # cs) ''true'' then Inr (JBool True, drop 4 (c # cs))
      else if startswith (c # cs) ''false'' then Inr (JBool False, drop 5 (c # cs))
      else
        (case match_number (c # cs) of
           Some (num, rest) \<Rightarrow> Inr (JNumber num, rest)
         | None \<Rightarrow>
             if startswith (c # cs) ''NaN'' then Inr (JNumber ''NaN'', drop 3 (c # cs))
             else if startswith (c # cs) ''Infinity''
             then Inr (JNumber ''Infinity'', drop 8 (c # cs))
             else if startswith (c # cs) ''-Infinity''
             then Inr (JNumber ''-Infinity'', drop 9 (c # cs))
             else Inl JSONDecodeError))"
| "JSONObject 0 s pairs = Inl RecursionError"
| "JSONObject (Suc n) [] pairs = Inl JSONDecodeError"
| "JSONObject (Suc n) (q # cs) pairs =
     (if q \<noteq> CHR 0x22 then Inl JSONDecodeError
      else
        (case scanstring [] cs of
           None \<Rightarrow> Inl JSONDecodeError
         | Some (key, r1) \<Rightarrow>
             (case skip_ws r1 of
                [] \<Rightarrow> Inl JSONDecodeError
              | colon # r2 \<Rightarrow>
                  if colon \<noteq> CHR '':'' then Inl JSONDecodeError
                  else
                    (case scan_once n (skip_ws r2) of
                       Inl err \<Rightarrow> Inl err
                     | Inr (v, r3) \<Rightarrow>
                         (case skip_ws r3 of
                            [] \<Rightarrow> Inl JSONDecodeError
                          | d # r4 \<Rightarrow>
                              if d = CHR ''}''
                              then Inr (JObject (AList.update key v pairs), r4)
                              else if d = CHR '',''
                              then JSONObject n (skip_ws r4) (AList.update key v pairs)
                              else Inl JSONDecodeError)))))"
| "JSONArray 0 s items = Inl RecursionError"
| "JSONArray (Suc n) s items =
     (case scan_once n s of
        Inl err \<Rightarrow> Inl err
      | Inr (v, r1) \<Rightarrow>
          (case skip_ws r1 of
             [] \<Rightarrow> Inl JSONDecodeError
           | d # r2 \<Rightarrow>
               if d = CHR '']'' then Inr (JArray (items @ [v]), r2)
               else if d = CHR '','' then JSONArray n (skip_ws r2) (items @ [v])
               else Inl JSONDecodeError))"

text \<open>
  \<^verbatim>\<open>json.loads\<close>: white space, one value, white space, and nothing behind it
  (\<^verbatim>\<open>Extra data\<close> otherwise).
\<close>

definition json_loads :: "string \<Rightarrow> py_error + json" where
  "json_loads s =
     (case scan_once (Suc (length s)) (skip_ws s) of
        Inl err \<Rightarrow> Inl err
      | Inr (v, rest) \<Rightarrow> if skip_ws rest = [] then Inr v else Inl JSONDecodeError)"

section \<open>query\_engine.py: the decision in the advice\<close>

text \<open>\<^verbatim>\<open>r'\{.*\}'\<close> with \<^verbatim>\<open>re.DOTALL\<close>: the dot matches every character.\<close>

definition block_pattern :: rx where
  "block_pattern = seqs [Sym (\<lambda>c. c = CHR ''{''), Star (Sym (\<lambda>c. True)), Sym (\<lambda>c. c = CHR ''}'')]"

text \<open>
  The last lines of \<^verbatim>\<open>get_best_swap_path\<close>: the search for the block in the advice
  and \<^verbatim>\<open>json.loads\<close> of the block, which is called outside any \<^verbatim>\<open>try\<close>.
\<close>

definition swap_details_of :: "string \<Rightarrow> py_error + json option" where
  "swap_details_of llm_advice =
     (case search block_pattern llm_advice of
        Some (block, caps) \<Rightarrow>
          (case json_loads block of Inl err \<Rightarrow> Inl err | Inr d \<Rightarrow> Inr (Some d))
      | None \<Rightarrow> Inr None)"

text \<open>Python's truth value of an optional string.\<close>

definition given :: "string option \<Rightarrow> bool" where
  "given x = (case x of None \<Rightarrow> False | Some s \<Rightarrow> truthy s)"

text \<open>
  \<^verbatim>\<open>get_best_swap_path\<close>. \<open>generate_swap_advice\<close> is the language model with its own
  exception handler, which turns every failure into a text. \<open>enriched_query\<close> stands
  for the prompt built from the parsed query, the historical paths and the quote of
  the aggregator, once these collaborators have answered. The result is the advice
  with the decision.
\<close>

definition get_best_swap_path ::
  "(string \<Rightarrow> string) \<Rightarrow> (string \<Rightarrow> string \<Rightarrow> string option \<Rightarrow> string) \<Rightarrow> string
     \<Rightarrow> py_error + (string \<times> json option)" where
  "get_best_swap_path generate_swap_advice enriched_query query =
     (case parse_swap_query query of
        Inl err \<Rightarrow> Inl err
      | Inr (from_token, to_token, amount) \<Rightarrow>
          if \<not> given from_token \<or> \<not> given to_token
          then Inr (generate_swap_advice
                      (''Could not parse swap details from query: '' @ [CHR 0x27] @ query
                        @ [CHR 0x27] @ ''. Please advise on best practices for crypto swaps.''),
                    None)
          else
            (let llm_advice = generate_swap_advice
                                (enriched_query (the from_token) (the to_token) amount)
             in case swap_details_of llm_advice of
                  Inl err \<Rightarrow> Inl err
                | Inr swap_details \<Rightarrow> Inr (llm_advice, swap_details)))"

section \<open>Theorems: the historical path ranker\<close>

lemma sorted_reverse_sorted:
  "sorted_wrt (\<lambda>a b. k b \<le> k a) (sorted_reverse k xs)"
  using sorted_sort_key[of k "rev xs"]
  by (simp add: sorted_reverse_def sorted_wrt_rev sorted_map)

lemma rank_key_le:
  fixes a b :: "'r::linorder path_stat"
  shows "rank_key b \<le> rank_key a \<longleftrightarrow>
     ps_avgRate b < ps_avgRate a \<or> (ps_avgRate b = ps_avgRate a \<and> ps_count b \<le> ps_count a)"
  by (auto simp: rank_key_def)

lemma ranked_before_rank_key:
  "ranked_before = (\<lambda>a b :: 'r::linorder path_stat. rank_key b \<le> rank_key a)"
  by (intro ext) (auto simp add: ranked_before_def rank_key_le)

lemma rank_example_pipeline:
  "map (\<lambda>s. (ps_path s, ps_avgRate s, ps_count s))
     (get_optimal_swap_paths exact_mean
        (replicate 5 (swap_match ''A'' 2) @ replicate 9 (swap_match ''B'' 2) @ [swap_match ''C'' 3]))
   = [(''C'', 3, 1), (''B'', 2, 9), (''A'', 2, 5)]"
  by (simp add: get_optimal_swap_paths_def aggregate_swaps_def add_swap_def stat_key_def
      new_stat_def bump_stat_def set_avg_def rank_key_def sorted_reverse_def exact_mean_def
      swap_match_def numeral_eq_Suc Let_def)

text \<open>
  The first loop of \<^verbatim>\<open>get_optimal_swap_paths\<close> keeps the invariant \<open>aggregated\<close>:
  adding one match updates or creates exactly the entry under that match's key.
\<close>

lemma bump_stat_fields:
  "ps_count (bump_stat w s) = ps_count s + 1"
  "ps_path (bump_stat w s) = ps_path s"
  "ps_dex (bump_stat w s) = ps_dex s"
  "ps_avgRate (bump_stat w s) = ps_avgRate s"
  "ps_rates (bump_stat w s) = ps_rates s @ (if sw_swapRate w > 0 then [sw_swapRate w] else [])"
  by (simp_all add: bump_stat_def Let_def)

lemma entry_key_bump: "entry_key (bump_stat w s) = entry_key s"
  by (simp add: entry_key_def bump_stat_fields)

lemma entry_key_new: "entry_key (new_stat w) = stat_key w"
  by (simp add: entry_key_def new_stat_def stat_key_def)

lemma aggregated_entry:
  assumes "aggregated ws ps" "map_of ps k = Some s"
  shows "entry_key s = k \<and> ps_count s = length (filter (\<lambda>w. stat_key w = k) ws)
     \<and> ps_rates s = rates_under k ws \<and> ps_avgRate s = 0"
proof -
  have "(k, s) \<in> set ps" using assms(2) by (rule map_of_SomeD)
  then show ?thesis using assms(1) by (auto simp: aggregated_def list_all_iff)
qed

lemma aggregated_step:
  assumes inv: "aggregated ws ps"
  shows "aggregated (ws @ [w]) (add_swap ps w)"
proof -
  let ?k = "stat_key w"
  let ?old = "case map_of ps ?k of None \<Rightarrow> new_stat w | Some s \<Rightarrow> s"
  let ?new = "bump_stat w ?old"
  have upd: "add_swap ps w = AList.update ?k ?new ps"
    by (simp add: add_swap_def Let_def)
  have d: "distinct (map fst ps)" and keys: "set (map fst ps) = stat_key ` set ws"
    using inv by (auto simp: aggregated_def)
  have old: "entry_key ?old = ?k \<and> ps_count ?old = length (filter (\<lambda>x. stat_key x = ?k) ws)
      \<and> ps_rates ?old = rates_under ?k ws \<and> ps_avgRate ?old = 0"
  proof (cases "map_of ps ?k")
    case None
    then have "?k \<notin> stat_key ` set ws" using keys by (simp add: map_of_eq_None_iff)
    then have "filter (\<lambda>x. stat_key x = ?k) ws = []"
      by (auto simp: filter_empty_conv intro: rev_image_eqI)
    moreover have "ps_count (new_stat w) = 0 \<and> ps_rates (new_stat w) = [] \<and> ps_avgRate (new_stat w) = 0"
      by (simp add: new_stat_def)
    ultimately show ?thesis using None by (simp add: entry_key_new rates_under_def)
  next
    case (Some s)
    then show ?thesis using aggregated_entry[OF inv Some] by simp
  qed
  have 1: "distinct (map fst (add_swap ps w))"
    unfolding upd using d by (rule distinct_update)
  have 2: "set (map fst (add_swap ps w)) = stat_key ` set (ws @ [w])"
    unfolding upd using keys by (auto simp: update_keys)
  have 3: "entry_key s = k \<and> ps_count s = length (filter (\<lambda>x. stat_key x = k) (ws @ [w]))
      \<and> ps_rates s = rates_under k (ws @ [w]) \<and> ps_avgRate s = 0"
    if mem: "(k, s) \<in> set (add_swap ps w)" for k s
  proof -
    have m: "map_of (add_swap ps w) k = Some s"
      using mem 1 by simp
    then have m': "((map_of ps)(?k \<mapsto> ?new)) k = Some s"
      unfolding upd by (simp add: update_conv')
    show ?thesis
    proof (cases "k = ?k")
      case True
      then have "s = ?new" using m' by simp
      then show ?thesis using old True
        by (simp add: entry_key_bump bump_stat_fields rates_under_def)
    next
      case False
      then have "map_of ps k = Some s" using m' by simp
      then show ?thesis using aggregated_entry[OF inv] False by (simp add: rates_under_def)
    qed
  qed
  show ?thesis
    unfolding aggregated_def using 1 2 3 by (auto simp: list_all_iff)
qed

lemma aggregated_swaps: "aggregated ws (aggregate_swaps ws)"
proof (induction ws rule: rev_induct)
  case Nil
  then show ?case by (simp add: aggregated_def aggregate_swaps_def)
next
  case (snoc w ws)
  then show ?case using aggregated_step[of ws "aggregate_swaps ws" w]
    by (simp add: aggregate_swaps_def)
qed


lemma set_avg_fields:
  "entry_key (set_avg mean s) = entry_key s"
  "ps_count (set_avg mean s) = ps_count s"
  "ps_rates (set_avg mean s) = ps_rates s"
  "ps_avgRate (set_avg mean s) = (if ps_rates s \<noteq> [] then mean (ps_rates s) else ps_avgRate s)"
  by (simp_all add: set_avg_def entry_key_def)

lemma mset_sorted_reverse: "mset (sorted_reverse k xs) = mset xs"
  by (simp add: sorted_reverse_def)

lemma set_sorted_reverse: "set (sorted_reverse k xs) = set xs"
  by (simp add: sorted_reverse_def)

lemma aggregated_keys_map:
  assumes "aggregated ws ps"
  shows "map (entry_key \<circ> (set_avg mean \<circ> snd)) ps = map fst ps"
  using assms by (auto simp: aggregated_def list_all_iff set_avg_fields)

lemma ranked_keys:
  fixes direct_swaps :: "'r::{linorder,zero} swap_info list"
  shows "mset (map entry_key (get_optimal_swap_paths mean direct_swaps))
     = mset (map fst (aggregate_swaps direct_swaps))"
proof -
  have "mset (map entry_key (get_optimal_swap_paths mean direct_swaps))
      = image_mset entry_key (mset (map (set_avg mean \<circ> snd) (aggregate_swaps direct_swaps)))"
    by (simp add: get_optimal_swap_paths_def mset_sorted_reverse)
  also have "\<dots> = mset (map (entry_key \<circ> (set_avg mean \<circ> snd)) (aggregate_swaps direct_swaps))"
    by (simp add: multiset.map_comp)
  also have "\<dots> = mset (map fst (aggregate_swaps direct_swaps))"
    by (simp only: aggregated_keys_map[OF aggregated_swaps])
  finally show ?thesis .
qed

lemma ranked_keys_distinct:
  fixes direct_swaps :: "'r::{linorder,zero} swap_info list"
  shows "distinct (map entry_key (get_optimal_swap_paths mean direct_swaps))"
proof -
  have "distinct (map fst (aggregate_swaps direct_swaps))"
    using aggregated_swaps[of direct_swaps] by (simp add: aggregated_def)
  then show ?thesis
    using mset_eq_imp_distinct_iff[OF ranked_keys[of mean direct_swaps]] by simp
qed

lemma ranked_keys_set:
  fixes direct_swaps :: "'r::{linorder,zero} swap_info list"
  shows "set (map entry_key (get_optimal_swap_paths mean direct_swaps)) = stat_key ` set direct_swaps"
proof -
  have "set (map fst (aggregate_swaps direct_swaps)) = stat_key ` set direct_swaps"
    using aggregated_swaps[of direct_swaps] by (simp add: aggregated_def)
  then show ?thesis
    using mset_eq_setD[OF ranked_keys[of mean direct_swaps]] by simp
qed

lemma ranked_entries:
  fixes direct_swaps :: "'r::{linorder,zero} swap_info list"
  shows "list_all (\<lambda>s. ps_count s = length (filter (\<lambda>w. stat_key w = entry_key s) direct_swaps)
            \<and> ps_rates s = rates_under (entry_key s) direct_swaps
            \<and> ps_avgRate s = (if ps_rates s = [] then 0 else mean (ps_rates s)))
     (get_optimal_swap_paths mean direct_swaps)"
proof -
  have "ps_count s = length (filter (\<lambda>w. stat_key w = entry_key s) direct_swaps)
            \<and> ps_rates s = rates_under (entry_key s) direct_swaps
            \<and> ps_avgRate s = (if ps_rates s = [] then 0 else mean (ps_rates s))"
    if "s \<in> set (get_optimal_swap_paths mean direct_swaps)" for s
  proof -
    from that obtain k s0 where mem: "(k, s0) \<in> set (aggregate_swaps direct_swaps)"
      and s: "s = set_avg mean s0"
      by (auto simp: get_optimal_swap_paths_def set_sorted_reverse)
    have "entry_key s0 = k \<and> ps_count s0 = length (filter (\<lambda>w. stat_key w = k) direct_swaps)
       \<and> ps_rates s0 = rates_under k direct_swaps \<and> ps_avgRate s0 = 0"
      using aggregated_swaps[of direct_swaps] mem by (auto simp: aggregated_def list_all_iff)
    then show ?thesis unfolding s by (simp add: set_avg_fields)
  qed
  then show ?thesis by (simp add: list_all_iff)
qed

text \<open>
  Claim C6. For every list of similarity-search matches and every averaging function,
  the result of \<^verbatim>\<open>get_optimal_swap_paths\<close> is sorted in non-increasing order of
  (average rate, count), the average rate first and the count breaking ties. Its entries
  are the aggregated statistics, one for each key \<^verbatim>\<open>"{path} on {dex}"\<close> among the
  matches and no other: no two entries have the same key, each entry counts the
  matches with its key, lists their positive rates, and carries the average of
  those rates, or 0 when there is none. The sort neither drops nor adds an entry.
  The entries A (average 2, count 5), B (average 2, count 9) and C (average 3, count 1)
  are put in the order C, B, A, both when they are handed to the sort and when they
  arise from fifteen matches; and the empty list of matches gives the empty result.
\<close>

theorem get_optimal_swap_paths_ranked:
  fixes direct_swaps :: "'r::{linorder,zero} swap_info list"
  shows "sorted_wrt ranked_before (get_optimal_swap_paths mean direct_swaps)
    \<and> distinct (map entry_key (get_optimal_swap_paths mean direct_swaps))
    \<and> set (map entry_key (get_optimal_swap_paths mean direct_swaps)) = stat_key ` set direct_swaps
    \<and> list_all (\<lambda>s. ps_count s = length (filter (\<lambda>w. stat_key w = entry_key s) direct_swaps)
            \<and> ps_rates s = rates_under (entry_key s) direct_swaps
            \<and> ps_avgRate s = (if ps_rates s = [] then 0 else mean (ps_rates s)))
         (get_optimal_swap_paths mean direct_swaps)
    \<and> mset (get_optimal_swap_paths mean direct_swaps)
        = mset (map (set_avg mean \<circ> snd) (aggregate_swaps direct_swaps))
    \<and> sorted_reverse rank_key [stat ''A'' 2 5, stat ''B'' 2 9, stat ''C'' 3 1]
        = [stat ''C'' 3 1, stat ''B'' 2 9, stat ''A'' 2 5]
    \<and> map (\<lambda>s. (ps_path s, ps_avgRate s, ps_count s))
         (get_optimal_swap_paths exact_mean
            (replicate 5 (swap_match ''A'' 2) @ replicate 9 (swap_match ''B'' 2)
              @ [swap_match ''C'' 3]))
        = [(''C'', 3, 1), (''B'', 2, 9), (''A'', 2, 5)]
    \<and> get_optimal_swap_paths mean ([] :: 'r swap_info list) = []"
proof (intro conjI)
  show "sorted_wrt ranked_before (get_optimal_swap_paths mean direct_swaps)"
    unfolding ranked_before_rank_key get_optimal_swap_paths_def
    by (rule sorted_reverse_sorted)
  show "distinct (map entry_key (get_optimal_swap_paths mean direct_swaps))"
    by (rule ranked_keys_distinct)
  show "set (map entry_key (get_optimal_swap_paths mean direct_swaps)) = stat_key ` set direct_swaps"
    by (rule ranked_keys_set)
  show "list_all (\<lambda>s. ps_count s = length (filter (\<lambda>w. stat_key w = entry_key s) direct_swaps)
            \<and> ps_rates s = rates_under (entry_key s) direct_swaps
            \<and> ps_avgRate s = (if ps_rates s = [] then 0 else mean (ps_rates s)))
         (get_optimal_swap_paths mean direct_swaps)"
    by (rule ranked_entries)
  show "mset (get_optimal_swap_paths mean direct_swaps)
        = mset (map (set_avg mean \<circ> snd) (aggregate_swaps direct_swaps))"
    by (simp add: get_optimal_swap_paths_def sorted_reverse_def)
  show "sorted_reverse rank_key [stat ''A'' 2 5, stat ''B'' 2 9, stat ''C'' 3 1]
        = [stat ''C'' 3 1, stat ''B'' 2 9, stat ''A'' 2 5]"
    by (simp add: sorted_reverse_def rank_key_def stat_def)
  show "map (\<lambda>s. (ps_path s, ps_avgRate s, ps_count s))
         (get_optimal_swap_paths exact_mean
            (replicate 5 (swap_match ''A'' 2) @ replicate 9 (swap_match ''B'' 2)
              @ [swap_match ''C'' 3]))
        = [(''C'', 3, 1), (''B'', 2, 9), (''A'', 2, 5)]"
    by (rule rank_example_pipeline)
  show "get_optimal_swap_paths mean ([] :: 'r swap_info list) = []"
    by (simp add: get_optimal_swap_paths_def sorted_reverse_def aggregate_swaps_def)
qed

section \<open>Theorems: the chain-data request\<close>













section \<open>Theorems: the swap executor\<close>

subsection \<open>Rules for the calls an action makes and for what it returns\<close>

lemma adds_return: "adds P (return_act x)"
  by (simp add: adds_def return_act_def)

lemma adds_raise: "adds P (raise x)"
  by (simp add: adds_def raise_def)

lemma adds_bind:
  assumes "adds P m" and "\<And>x. adds P (f x)"
  shows "adds P (bind_act m f)"
proof -
  have "\<exists>evs. snd (bind_act m f t) = t @ evs \<and> list_all P evs" for t
  proof -
    obtain r t' where mt: "m t = (r, t')"
      by (cases "m t")
    obtain evs where m: "t' = t @ evs" "list_all P evs"
      using assms(1) mt unfolding adds_def by (metis snd_conv)
    show ?thesis
    proof (cases r)
      case (Inl err)
      then have "bind_act m f t = (Inl err, t @ evs)"
        using m(1) mt by (simp add: bind_act_def)
      then show ?thesis using m(2) by simp
    next
      case (Inr x)
      then have b: "bind_act m f t = f x (t @ evs)"
        using m(1) mt by (simp add: bind_act_def)
      obtain evs' where "snd (f x (t @ evs)) = (t @ evs) @ evs'" "list_all P evs'"
        using assms(2)[of x] unfolding adds_def by blast
      then show ?thesis using m(2) b by (intro exI[of _ "evs @ evs'"]) simp
    qed
  qed
  then show ?thesis unfolding adds_def by blast
qed

lemma adds_rpc: "P ev \<Longrightarrow> adds P (rpc e ev)"
  by (simp add: adds_def rpc_def)

lemma adds_gas_or_fallback: "P ev \<Longrightarrow> adds P (gas_or_fallback e ev)"
  by (simp add: adds_def gas_or_fallback_def)

lemma adds_checksum: "adds P (checksum e a)"
  by (simp add: checksum_def adds_return adds_raise split: option.splits)

lemma adds_item: "adds P (item d k)"
  by (simp add: item_def adds_return adds_raise split: option.splits)

lemma adds_read_deadline: "adds P (read_deadline e)"
  by (simp add: adds_def read_deadline_def)

lemmas adds_intros = adds_return adds_raise adds_bind adds_rpc adds_gas_or_fallback
  adds_checksum adds_item adds_read_deadline

lemma adds_get_token_contract: "adds P (get_token_contract e a)"
  by (simp add: get_token_contract_def adds_checksum)

lemma adds_get_router_contract: "adds P (get_router_contract e d)"
  by (simp add: get_router_contract_def adds_intros)

lemma adds_get_token_balance:
  assumes "\<And>a. P (EthGetBalance a)" "\<And>c a. P (CallBalanceOf c a)" "\<And>c. P (CallDecimals c)"
  shows "adds P (get_token_balance e self tok)"
  unfolding get_token_balance_def
  by (auto intro!: adds_intros adds_get_token_contract assms split: option.splits)

lemma adds_if: "(c \<Longrightarrow> adds P a) \<Longrightarrow> (\<not> c \<Longrightarrow> adds P b) \<Longrightarrow> adds P (if c then a else b)"
  by simp

lemma adds_case_option:
  "(x = None \<Longrightarrow> adds P a) \<Longrightarrow> (\<And>y. x = Some y \<Longrightarrow> adds P (b y)) \<Longrightarrow> adds P (case x of None \<Rightarrow> a | Some y \<Rightarrow> b y)"
  by (cases x) simp_all

lemma adds_case_prod:
  "(\<And>a b. x = (a, b) \<Longrightarrow> adds P (f a b)) \<Longrightarrow> adds P (case x of (a, b) \<Rightarrow> f a b)"
  by (cases x) simp

lemma adds_checked_destination: "adds P (checked_destination e d)"
  by (simp add: checked_destination_def adds_return adds_raise split: option.splits)

lemma adds_generate_swap_transaction:
  assumes "\<And>a. P (EthGetBalance a)" "\<And>c a. P (CallBalanceOf c a)" "\<And>c. P (CallDecimals c)"
    "\<And>a. P (EthGetTransactionCount a)"
    "\<And>c f s a. approval_of_call f = None \<Longrightarrow> P (EstimateGas c f s a)"
    "\<And>t. approval_of_call (tx_call t) = None \<Longrightarrow> P (BuildTransaction t)"
  shows "adds P (generate_swap_transaction e self f t a d s dst)"
  unfolding generate_swap_transaction_def Let_def
  apply (intro adds_case_option adds_intros adds_if adds_case_prod adds_get_token_contract adds_get_router_contract adds_get_token_balance adds_checked_destination assms)
  apply (auto simp: swap_call_def split: if_splits)
  done



















subsection \<open>The example runs\<close>

lemmas run_defs = bind_act_def return_act_def raise_def rpc_def checksum_def item_def
  gas_or_fallback_def read_deadline_def get_token_contract_def get_router_contract_def
  get_token_balance_def has_key_def truthy_def TOKEN_ADDRESSES_def DEX_ROUTER_ADDRESSES_def
  demo_env_def demo_wallet_def live_executor_def test_executor_def no_wallet_executor_def
  swap_call_def Let_def
  chosen_destination_def checked_destination_def unknown_token_def



lemmas named_defs = usdc_def weth_def uniswap_v2_def holder_def approve_tx_def swap_tx_def
  usdc_to_eth_def eth_to_usdc_def eth_swap_tx_def unlimited_def

lemma demo_fields:
  "to_checksum_address demo_env a = (if length a = 42 then Some a else None)"
  "chain demo_env = demo_chain"
  by (simp_all add: demo_env_def)





lemma short_balance_run: "execute_swap demo_env test_executor ''ETH'' ''USDC'' 10 ''Uniswap V2'' (1/2) None None []
  = (Inl (InsufficientBalance ''ETH''), [EthGetBalance holder])"
  by (simp add: execute_swap_def generate_swap_transaction_def run_defs named_defs)

lemma no_wallet_run: "generate_swap_transaction demo_env no_wallet_executor ''FOO'' ''USDC'' 1 ''Uniswap V2'' (1/2) None [] = (Inl NoWallet, [])"
  by (simp add: generate_swap_transaction_def run_defs)

lemma unknown_token_run: "generate_swap_transaction demo_env test_executor ''FOO'' ''USDC'' 1 ''Uniswap V2'' (1/2) None [] = (Inl (UnknownSourceToken ''FOO''), [])"
  by (simp add: generate_swap_transaction_def run_defs)

lemma bad_destination_run:
  "generate_swap_transaction demo_env test_executor ''FOO'' ''USDC'' 1 ''Uniswap V2'' (1/2)
     (Some ''nowhere'') [] = (Inl (InvalidDestination ''nowhere''), [])"
  by (simp add: generate_swap_transaction_def run_defs)

lemma unknown_destination_token_run:
  "generate_swap_transaction demo_env test_executor ''USDC'' ''BAR'' 1 ''Uniswap V2'' (1/2)
     None [] = (Inl (UnknownDestinationToken ''BAR''), [])"
  by (simp add: generate_swap_transaction_def run_defs)

lemma test_swap_run:
  "execute_swap demo_env test_executor ''ETH'' ''USDC'' 1 ''Uniswap V2'' (1/2) None None []
  = (Inr (Some ''test_tx_hash''), [EthGetBalance holder, EthGetTransactionCount holder,
       EstimateGas uniswap_v2 eth_to_usdc holder (Some 1000000000000000000),
       BuildTransaction eth_swap_tx])"
  by (simp add: execute_swap_def generate_swap_transaction_def run_defs named_defs)

subsection \<open>The methods\<close>





lemma execute_swap_adds_no_broadcast:
  assumes "tm = Some True \<or> (tm = None \<and> test_mode self)"
  shows "adds (\<lambda>ev. \<not> is_broadcast ev) (execute_swap e self f t a d s dst tm)"
  using assms unfolding execute_swap_def Let_def
  apply (intro adds_case_option adds_raise adds_bind)
   apply (rule adds_generate_swap_transaction; simp)
  apply (auto intro: adds_return)
  done

lemma execute_swap_test_result:
  assumes "tm = Some True \<or> (tm = None \<and> test_mode self)"
  shows "execute_swap e self f t a d s dst tm tr
    = (case generate_swap_transaction e self f t a d s dst tr of
         (Inl err, tr') \<Rightarrow> (Inl err, tr')
       | (Inr swap_data, tr') \<Rightarrow> (Inr (Some ''test_tx_hash''), tr'))"
proof (cases "account self")
  case None
  then show ?thesis
    by (simp add: execute_swap_def generate_swap_transaction_def raise_def)
next
  case (Some w)
  then show ?thesis using assms
    by (auto simp add: execute_swap_def bind_act_def return_act_def split: prod.splits sum.splits)
qed

lemma generate_unknown_token:
  assumes "unknown_token f \<or> unknown_token t"
  shows "generate_swap_transaction e self f t a d s dst tr
    = (Inl (case account self of
              None \<Rightarrow> NoWallet
            | Some w \<Rightarrow>
                if \<not> destination_accepted e (chosen_destination w dst)
                then InvalidDestination (chosen_destination w dst)
                else if unknown_token f then UnknownSourceToken f
                else UnknownDestinationToken t), tr)"
  using assms
  by (auto simp add: generate_swap_transaction_def bind_act_def raise_def return_act_def
      checked_destination_def destination_accepted_def split: option.splits)

subsection \<open>The claims about the executor\<close>






text \<open>
  Claim C4, as stated, fails: before a wallet is loaded, building a swap from the
  unknown token FOO fails with the error of the missing wallet, not with an
  unknown-token error.
\<close>

theorem unknown_token_without_wallet:
  "unknown_token ''FOO''
   \<and> generate_swap_transaction demo_env no_wallet_executor ''FOO'' ''USDC'' 1 ''Uniswap V2''
        (1/2) None [] = (Inl NoWallet, [])
   \<and> NoWallet \<noteq> UnknownSourceToken ''FOO''"
  by (simp add: no_wallet_run unknown_token_def has_key_def TOKEN_ADDRESSES_def)

text \<open>
  Claim C4, amended. When the source or the destination token is neither ETH nor a key
  of the registry, \<^verbatim>\<open>generate_swap_transaction\<close> always fails, returns no transaction and
  makes no call (the list of calls is unchanged). The failure is that of the first
  check that fails, in the order of the code: without a wallet the error of the missing
  wallet; with a wallet and a destination that the checksum conversion rejects the
  error of the invalid destination; with a wallet and an accepted destination the
  unknown-token error, that of the source token when the source is unknown, else that
  of the destination token.
\<close>

theorem generate_swap_transaction_unknown_token:
  assumes "unknown_token from_token \<or> unknown_token to_token"
  shows "(\<exists>err. generate_swap_transaction e self from_token to_token amount dex_name slippage
                  destination_address tr = (Inl err, tr))
    \<and> (account self = None
          \<longrightarrow> generate_swap_transaction e self from_token to_token amount dex_name slippage
                destination_address tr = (Inl NoWallet, tr))
    \<and> (\<forall>w. account self = Some w
            \<and> \<not> destination_accepted e (chosen_destination w destination_address)
          \<longrightarrow> generate_swap_transaction e self from_token to_token amount dex_name slippage
                destination_address tr
              = (Inl (InvalidDestination (chosen_destination w destination_address)), tr))
    \<and> (\<forall>w. account self = Some w
            \<and> destination_accepted e (chosen_destination w destination_address)
          \<longrightarrow> generate_swap_transaction e self from_token to_token amount dex_name slippage
                destination_address tr
              = (Inl (if unknown_token from_token then UnknownSourceToken from_token
                      else UnknownDestinationToken to_token), tr))"
  using generate_unknown_token[OF assms, of e self amount dex_name slippage destination_address tr]
  by simp

theorem generate_swap_transaction_unknown_token_witness:
  "unknown_token ''FOO'' \<and> unknown_token ''BAR'' \<and> \<not> unknown_token ''USDC''
   \<and> account no_wallet_executor = None
   \<and> generate_swap_transaction demo_env no_wallet_executor ''FOO'' ''USDC'' 1 ''Uniswap V2''
        (1/2) None [] = (Inl NoWallet, [])
   \<and> account test_executor = Some demo_wallet
   \<and> \<not> destination_accepted demo_env (chosen_destination demo_wallet (Some ''nowhere''))
   \<and> generate_swap_transaction demo_env test_executor ''FOO'' ''USDC'' 1 ''Uniswap V2'' (1/2)
        (Some ''nowhere'') [] = (Inl (InvalidDestination ''nowhere''), [])
   \<and> destination_accepted demo_env (chosen_destination demo_wallet None)
   \<and> generate_swap_transaction demo_env test_executor ''FOO'' ''USDC'' 1 ''Uniswap V2'' (1/2)
        None [] = (Inl (UnknownSourceToken ''FOO''), [])
   \<and> generate_swap_transaction demo_env test_executor ''USDC'' ''BAR'' 1 ''Uniswap V2'' (1/2)
        None [] = (Inl (UnknownDestinationToken ''BAR''), [])"
  using generate_swap_transaction_unknown_token[of "''FOO''" "''USDC''" demo_env
      no_wallet_executor 1 "''Uniswap V2''" "1/2" None "[]"]
    generate_swap_transaction_unknown_token[of "''FOO''" "''USDC''" demo_env test_executor
      1 "''Uniswap V2''" "1/2" "Some ''nowhere''" "[]"]
    generate_swap_transaction_unknown_token[of "''FOO''" "''USDC''" demo_env test_executor
      1 "''Uniswap V2''" "1/2" None "[]"]
    generate_swap_transaction_unknown_token[of "''USDC''" "''BAR''" demo_env test_executor
      1 "''Uniswap V2''" "1/2" None "[]"]
  by (simp add: unknown_token_def has_key_def TOKEN_ADDRESSES_def test_executor_def
      no_wallet_executor_def destination_accepted_def chosen_destination_def demo_wallet_def
      demo_fields truthy_def unknown_token_run no_wallet_run bad_destination_run
      unknown_destination_token_run)

text \<open>
  Claim C5, as stated, fails: in test mode, with a wallet that holds 5 ETH, a swap of
  10 ETH returns no placeholder: it fails with the error of the insufficient balance.
\<close>

theorem simulated_swap_can_fail:
  "test_mode test_executor
   \<and> fst (execute_swap demo_env test_executor ''ETH'' ''USDC'' 10 ''Uniswap V2'' (1/2) None None [])
       = Inl (InsufficientBalance ''ETH'')
   \<and> fst (execute_swap demo_env test_executor ''ETH'' ''USDC'' 10 ''Uniswap V2'' (1/2) None None [])
       \<noteq> Inr (Some ''test_tx_hash'')"
proof -
  have "test_mode test_executor"
    by (simp add: test_executor_def)
  then show ?thesis
    by (simp add: short_balance_run)
qed

text \<open>
  Claim C5, amended. In test mode (the argument \<^verbatim>\<open>test_mode\<close> is true, or it is left
  out and the executor's own flag is true) \<^verbatim>\<open>execute_swap\<close> never calls
  \<^verbatim>\<open>send_raw_transaction\<close>, and it does exactly what \<^verbatim>\<open>generate_swap_transaction\<close> does:
  when building the transaction succeeds it returns the placeholder
  \<^verbatim>\<open>"test_tx_hash"\<close>, and when building fails it fails with the same error.
\<close>

theorem execute_swap_simulated:
  assumes "test_mode_arg = Some True \<or> (test_mode_arg = None \<and> test_mode self)"
  shows "(\<exists>evs. snd (execute_swap e self from_token to_token amount dex_name slippage
                    destination_address test_mode_arg tr) = tr @ evs
            \<and> list_all (\<lambda>ev. \<not> is_broadcast ev) evs)
    \<and> execute_swap e self from_token to_token amount dex_name slippage destination_address
          test_mode_arg tr
        = (case generate_swap_transaction e self from_token to_token amount dex_name slippage
                  destination_address tr of
             (Inl err, tr') \<Rightarrow> (Inl err, tr')
           | (Inr swap_data, tr') \<Rightarrow> (Inr (Some ''test_tx_hash''), tr'))"
proof (intro conjI)
  show "\<exists>evs. snd (execute_swap e self from_token to_token amount dex_name slippage
                    destination_address test_mode_arg tr) = tr @ evs
            \<and> list_all (\<lambda>ev. \<not> is_broadcast ev) evs"
    using execute_swap_adds_no_broadcast[OF assms, of e from_token to_token amount dex_name
        slippage destination_address]
    unfolding adds_def by blast
  show "execute_swap e self from_token to_token amount dex_name slippage destination_address
          test_mode_arg tr
        = (case generate_swap_transaction e self from_token to_token amount dex_name slippage
                  destination_address tr of
             (Inl err, tr') \<Rightarrow> (Inl err, tr')
           | (Inr swap_data, tr') \<Rightarrow> (Inr (Some ''test_tx_hash''), tr'))"
    by (rule execute_swap_test_result[OF assms])
qed

theorem execute_swap_simulated_witness:
  "test_mode test_executor
   \<and> execute_swap demo_env test_executor ''ETH'' ''USDC'' 1 ''Uniswap V2'' (1/2) None None []
       = (Inr (Some ''test_tx_hash''),
          [EthGetBalance holder, EthGetTransactionCount holder,
           EstimateGas uniswap_v2 eth_to_usdc holder (Some 1000000000000000000),
           BuildTransaction eth_swap_tx])
   \<and> (\<exists>swap_data.
         fst (generate_swap_transaction demo_env test_executor ''ETH'' ''USDC'' 1 ''Uniswap V2''
                (1/2) None []) = Inr swap_data)"
proof -
  have t: "test_mode test_executor"
    by (simp add: test_executor_def)
  show ?thesis
    using execute_swap_simulated[of None test_executor demo_env "''ETH''" "''USDC''" 1
        "''Uniswap V2''" "1/2" None "[]"] t
    by (auto simp add: test_swap_run split: prod.splits sum.splits)
qed


section \<open>Theorems: the query parser\<close>

subsection \<open>The matcher\<close>

lemma matches_sound:
  "st' \<in> set (matches r st) \<Longrightarrow> \<exists>w. fst st = w @ fst st' \<and> w \<in> lang r"
proof (induction r st arbitrary: st' rule: matches.induct)
  case (1 p s caps)
  then show ?case by (auto split: list.splits if_splits)
next
  case (2 st)
  then show ?case by simp
next
  case (3 a b st)
  from "3.prems" obtain mid where mid: "mid \<in> set (matches a st)" "st' \<in> set (matches b mid)"
    by auto
  from "3.IH"(1)[OF mid(1)] obtain u where u: "fst st = u @ fst mid" "u \<in> lang a" by blast
  from "3.IH"(2)[OF mid(1) mid(2)] obtain v where v: "fst mid = v @ fst st'" "v \<in> lang b" by blast
  have "fst st = (u @ v) @ fst st'" using u v by simp
  moreover have "u @ v \<in> lang (Seq a b)" using u v by auto
  ultimately show ?case by blast
next
  case (4 a b st)
  from "4.prems" have "st' \<in> set (matches a st) \<or> st' \<in> set (matches b st)" by simp
  then show ?case using "4.IH"(1)[of st'] "4.IH"(2)[of st'] by fastforce
next
  case (5 a s caps)
  from "5.prems" consider "st' = (s, caps)"
    | mid where "mid \<in> set (matches a (s, caps))" "length (fst mid) < length s"
        "st' \<in> set (matches (Star a) mid)"
    by (auto split: if_splits)
  then show ?case
  proof cases
    case 1
    then show ?thesis by (auto intro: star_empty)
  next
    case 2
    from "5.IH"(1)[OF 2(1)] obtain u where u: "s = u @ fst mid" "u \<in> lang a" by auto
    from "5.IH"(2)[OF 2(1) 2(2) 2(3)] obtain v where v: "fst mid = v @ fst st'" "v \<in> star (lang a)"
      by auto
    have "s = (u @ v) @ fst st'" using u v by simp
    moreover have "u @ v \<in> lang (Star a)" using u v by (auto intro: star_step)
    ultimately show ?thesis by (metis fst_conv)
  qed
next
  case (6 n a s caps)
  then show ?case by auto
qed

lemma matches_groups:
  "st' \<in> set (matches r st) \<Longrightarrow> n \<in> sets_groups r \<or> map_of (snd st) n \<noteq> None
     \<Longrightarrow> map_of (snd st') n \<noteq> None"
proof (induction r st arbitrary: st' rule: matches.induct)
  case (1 p s caps)
  then show ?case by (auto split: list.splits if_splits)
next
  case (2 st)
  then show ?case by simp
next
  case (3 a b st)
  from "3.prems"(1) obtain mid where mid: "mid \<in> set (matches a st)" "st' \<in> set (matches b mid)"
    by auto
  show ?case
  proof (cases "n \<in> sets_groups b")
    case True
    then show ?thesis using "3.IH"(2)[OF mid(1) mid(2)] by blast
  next
    case False
    then have "n \<in> sets_groups a \<or> map_of (snd st) n \<noteq> None" using "3.prems"(2) by auto
    then have "map_of (snd mid) n \<noteq> None" using "3.IH"(1)[OF mid(1)] by blast
    then show ?thesis using "3.IH"(2)[OF mid(1) mid(2)] by blast
  qed
next
  case (4 a b st)
  from "4.prems"(1) have "st' \<in> set (matches a st) \<or> st' \<in> set (matches b st)" by simp
  moreover have "n \<in> sets_groups a \<or> map_of (snd st) n \<noteq> None"
    "n \<in> sets_groups b \<or> map_of (snd st) n \<noteq> None"
    using "4.prems"(2) by auto
  ultimately show ?case using "4.IH"(1)[of st'] "4.IH"(2)[of st'] by blast
next
  case (5 a s caps)
  from "5.prems"(2) have old: "map_of caps n \<noteq> None" by simp
  from "5.prems"(1) consider "st' = (s, caps)"
    | mid where "mid \<in> set (matches a (s, caps))" "length (fst mid) < length s"
        "st' \<in> set (matches (Star a) mid)"
    by (auto split: if_splits)
  then show ?case
  proof cases
    case 1
    then show ?thesis using old by simp
  next
    case 2
    have "map_of (snd mid) n \<noteq> None" using "5.IH"(1)[OF 2(1)] old by simp
    then show ?thesis using "5.IH"(2)[OF 2(1) 2(2) 2(3)] by blast
  qed
next
  case (6 m a s caps)
  from "6.prems"(1) obtain mid where mid: "mid \<in> set (matches a (s, caps))"
    "st' = (fst mid, (m, take (length s - length (fst mid)) s) # snd mid)"
    by auto
  show ?case
  proof (cases "n = m")
    case True
    then show ?thesis using mid(2) by simp
  next
    case False
    then have "n \<in> sets_groups a \<or> map_of (snd (s, caps)) n \<noteq> None" using "6.prems"(2) by auto
    then have "map_of (snd mid) n \<noteq> None" using "6.IH"[OF mid(1)] by blast
    then show ?thesis using mid(2) False by simp
  qed
qed

lemma search_sound:
  "search r q = Some (m, caps) \<Longrightarrow>
     \<exists>pre post. q = pre @ m @ post \<and> m \<in> lang r \<and> (\<forall>n \<in> sets_groups r. group_of caps n \<noteq> None)"
proof (induction q)
  case Nil
  then obtain rest where "(rest, caps) \<in> set (matches r ([], []))" "m = []"
    by (auto split: list.splits)
  then show ?case
    using matches_sound[of "(rest, caps)" r "([], [])"] matches_groups[of "(rest, caps)" r "([], [])"]
    by (auto simp: group_of_def)
next
  case (Cons c cs)
  show ?case
  proof (cases "matches r (c # cs, [])")
    case Nil
    then have "search r cs = Some (m, caps)" using Cons.prems by simp
    from Cons.IH[OF this] obtain pre post where "cs = pre @ m @ post" "m \<in> lang r"
      "\<forall>n \<in> sets_groups r. group_of caps n \<noteq> None" by blast
    then have "c # cs = (c # pre) @ m @ post" by simp
    then show ?thesis using \<open>m \<in> lang r\<close> \<open>\<forall>n \<in> sets_groups r. group_of caps n \<noteq> None\<close> by blast
  next
    case (Cons st' more)
    obtain rest caps' where st': "st' = (rest, caps')" by (cases st')
    then have m: "m = take (length (c # cs) - length rest) (c # cs)" "caps = caps'"
      using Cons.prems Cons by auto
    have mem: "(rest, caps) \<in> set (matches r (c # cs, []))" using Cons st' m by simp
    from matches_sound[OF mem] obtain w where w: "c # cs = w @ rest" "w \<in> lang r" by auto
    then have "m = w" using m by simp
    moreover have "\<forall>n \<in> sets_groups r. group_of caps n \<noteq> None"
      using matches_groups[OF mem] by (auto simp: group_of_def)
    ultimately show ?thesis using w by (metis append_Nil)
  qed
qed

subsection \<open>The ticker pattern\<close>











subsection \<open>Letters and white space\<close>









subsection \<open>What a directional match contains\<close>






lemma lang_seqs_Cons:
  "lang (seqs (r # rs)) = {u @ v | u v. u \<in> lang r \<and> v \<in> lang (seqs rs)}"
  by (cases rs) auto

lemma lang_seqs_split:
  "w \<in> lang (seqs (rs1 @ r # rs2)) \<Longrightarrow>
     \<exists>a m b. w = a @ m @ b \<and> a \<in> lang (seqs rs1) \<and> m \<in> lang r \<and> b \<in> lang (seqs rs2)"
proof (induction rs1 arbitrary: w)
  case Nil
  then obtain u v where "w = u @ v" "u \<in> lang r" "v \<in> lang (seqs rs2)"
    by (auto simp: lang_seqs_Cons simp del: seqs.simps)
  then have "w = [] @ u @ v \<and> [] \<in> lang (seqs []) \<and> u \<in> lang r \<and> v \<in> lang (seqs rs2)"
    by simp
  then show ?case by blast
next
  case (Cons r1 rs1)
  from Cons.prems obtain u v where uv: "w = u @ v" "u \<in> lang r1"
    "v \<in> lang (seqs (rs1 @ r # rs2))"
    by (auto simp: lang_seqs_Cons simp del: seqs.simps)
  from Cons.IH[OF uv(3)] obtain a m b where amb: "v = a @ m @ b" "a \<in> lang (seqs rs1)"
    "m \<in> lang r" "b \<in> lang (seqs rs2)" by blast
  have "u @ a \<in> lang (seqs (r1 # rs1))"
    using uv(2) amb(2) by (auto simp: lang_seqs_Cons simp del: seqs.simps)
  moreover have "w = (u @ a) @ m @ b" using uv(1) amb(1) by simp
  ultimately show ?case using amb(3,4) by blast
qed




subsection \<open>Example queries\<close>

lemmas rx_defs = token_pattern_def amount_pattern_def ticker_def verb_cue_def transition_cue_def
  number_def plus_rx_def opt_def letter_def is_digit_def is_space_def is_alpha_def is_upper_def
  uppercase_def lowercase_def to_lower_def to_upper_def upper_def group_of_def truthy_def











lemma directional_parse:
  "parse_swap_query ''swap 2.5 ETH to USDC'' = Inr (Some ''ETH'', Some ''USDC'', Some ''2.5'')"
  by (simp add: parse_swap_query_def rx_defs)





subsection \<open>The claims about the parser\<close>







section \<open>Theorems: the decision in the advice\<close>

lemma bad_advice_block:
  "search block_pattern ''Use Uniswap V3. {dex: Uniswap V3}'' = Some (''{dex: Uniswap V3}'', [])"
  by (simp add: block_pattern_def)

lemma bad_block_loads: "json_loads ''{dex: Uniswap V3}'' = Inl JSONDecodeError"
  by (simp add: json_loads_def skip_ws_def json_ws_def)

lemma bad_advice_details:
  "swap_details_of ''Use Uniswap V3. {dex: Uniswap V3}'' = Inl JSONDecodeError"
  by (simp add: swap_details_of_def bad_advice_block bad_block_loads del: search.simps)

lemma query_parse:
  "parse_swap_query ''swap 1 ETH to USDC'' = Inr (Some ''ETH'', Some ''USDC'', Some ''1'')"
  by (simp add: parse_swap_query_def rx_defs)

lemma swap_details_none:
  "search block_pattern advice = None \<Longrightarrow> swap_details_of advice = Inr None"
  by (simp add: swap_details_of_def)

lemma swap_details_raises:
  "search block_pattern advice = Some (block, caps) \<Longrightarrow> json_loads block = Inl err
     \<Longrightarrow> swap_details_of advice = Inl err"
  by (simp add: swap_details_of_def)

lemma swap_details_some:
  "swap_details_of advice = Inr (Some d) \<Longrightarrow>
     \<exists>block caps. search block_pattern advice = Some (block, caps) \<and> json_loads block = Inr d"
  by (auto simp add: swap_details_of_def split: option.splits sum.splits)

lemma block_has_braces:
  assumes "search block_pattern advice = Some (block, caps)"
  shows "\<exists>pre mid post. advice = pre @ CHR ''{'' # mid @ CHR ''}'' # post
           \<and> block = CHR ''{'' # mid @ [CHR ''}'']"
proof -
  from search_sound[OF assms] obtain pre post where a: "advice = pre @ block @ post"
    and b: "block \<in> lang block_pattern" by blast
  have "block \<in> lang (seqs ([Sym (\<lambda>c. c = CHR ''{'')] @ Star (Sym (\<lambda>c. True)) #
      [Sym (\<lambda>c. c = CHR ''}'')]))"
    using b by (simp only: block_pattern_def append.simps)
  from lang_seqs_split[OF this] obtain x mid y where "block = x @ mid @ y"
    "x \<in> lang (seqs [Sym (\<lambda>c. c = CHR ''{'')])" "y \<in> lang (seqs [Sym (\<lambda>c. c = CHR ''}'')])"
    by blast
  then have "block = CHR ''{'' # mid @ [CHR ''}'']" by auto
  then show ?thesis using a by auto
qed

lemma no_braces_no_block:
  assumes "CHR ''{'' \<notin> set advice \<or> CHR ''}'' \<notin> set advice"
  shows "swap_details_of advice = Inr None"
proof -
  have "search block_pattern advice = None"
  proof (cases "search block_pattern advice")
    case None
    then show ?thesis .
  next
    case (Some found)
    obtain block caps where "found = (block, caps)" by (cases found)
    from block_has_braces[of advice block caps] Some this assms show ?thesis by auto
  qed
  then show ?thesis by (rule swap_details_none)
qed

lemma bad_advice_path:
  "get_best_swap_path (\<lambda>prompt. ''Use Uniswap V3. {dex: Uniswap V3}'') enriched_query
     ''swap 1 ETH to USDC'' = Inl JSONDecodeError"
  by (simp add: get_best_swap_path_def query_parse given_def truthy_def bad_advice_details)

text \<open>
  Claim C2 does not hold of the code. The advice
  \<^verbatim>\<open>Use Uniswap V3. {dex: Uniswap V3}\<close> contains a block from the first \<^verbatim>\<open>{\<close> to the
  last \<^verbatim>\<open>}\<close> that is not JSON (its key is not quoted). The search finds the block,
  \<^verbatim>\<open>json.loads\<close> raises \<^verbatim>\<open>JSONDecodeError\<close> on it, and \<^verbatim>\<open>get_best_swap_path\<close>, which
  calls \<^verbatim>\<open>json.loads\<close> outside any \<^verbatim>\<open>try\<close>, raises the same error instead of returning
  the advice with the decision \<^verbatim>\<open>None\<close>.
\<close>

theorem malformed_block_raises:
  "search block_pattern ''Use Uniswap V3. {dex: Uniswap V3}'' = Some (''{dex: Uniswap V3}'', [])
   \<and> json_loads ''{dex: Uniswap V3}'' = Inl JSONDecodeError
   \<and> get_best_swap_path (\<lambda>prompt. ''Use Uniswap V3. {dex: Uniswap V3}'') enriched_query
        ''swap 1 ETH to USDC'' = Inl JSONDecodeError"
  using bad_advice_block bad_block_loads bad_advice_path by blast

theorem malformed_block_raises_witness:
  "get_best_swap_path (\<lambda>prompt. ''Use Uniswap V3. {dex: Uniswap V3}'') (\<lambda>f t a. f @ '' '' @ t)
     ''swap 1 ETH to USDC'' = Inl JSONDecodeError"
  using malformed_block_raises[of "\<lambda>f t a. f @ '' '' @ t"] by blast


end
